theory Spec2Isabelle
  imports Main "HOL-Library.Signed_Division"
begin

section \<open>The data model\<close>

text \<open>
  A shallow embedding of the Monopoly engine (player.h, spaces.cc, cards.cc, managers.cc,
  gamecore.cc, iomanager.cc). Objects held through \<open>shared_ptr\<close> are addressed by an
  identifier: a player by a \<open>pid\<close> into the heap of player objects, a space by its index
  on the board. The C++ \<open>int\<close> is modelled by \<open>int\<close>. The balance of a player changes in
  \<open>transferMoneyFromTo\<close> only, where the 32-bit wrap-around of the debit and of the credit
  is written out; counters, building levels, rents and prices stay far from the ends of
  the 32-bit range. Where the source mixes \<open>int\<close> with \<open>size_t\<close> (the position
  arithmetic of \<open>movePlayer\<close> and of the cards that advance a player) the conversions
  are written out. Whatever the source leaves undefined (an index outside a vector, a
  null pointer dereferenced, a remainder by zero) is the error value
  \<open>UndefinedBehaviour\<close>. Log lines are not modelled, except where the evaluation of their
  arguments is undefined.
\<close>

subsection \<open>player.h\<close>

type_synonym pid = nat

record player =
  name :: string
  money :: int
  position :: int
  nbStationsOwned :: int
  nbUtilitiesOwned :: int
  remainingTurnsInJail :: int
  hasChanceGOJFC :: bool
  hasCommunityChestGOJFC :: bool

text \<open>\<open>Player::Player(std::string _name)\<close>: the other members take their default
  member initialisers.\<close>

definition Player :: "string \<Rightarrow> player" where
  "Player nm = \<lparr> name = nm, money = 1500, position = 0, nbStationsOwned = 0,
     nbUtilitiesOwned = 0, remainingTurnsInJail = 0, hasChanceGOJFC = False,
     hasCommunityChestGOJFC = False \<rparr>"

subsection \<open>spaces.h\<close>

datatype Color = PURPLE | LIGHT_BLUE | PINK | ORANGE | RED | YELLOW | GREEN | BLUE

text \<open>\<open>enum class PropertyRent\<close> has underlying type \<open>int\<close>; the source casts freely between
  the two, so a level is kept as its integer value.\<close>

type_synonym PropertyRent = int

definition FULL_GROUP :: PropertyRent where "FULL_GROUP = 0"
definition ONE_HOUSE :: PropertyRent where "ONE_HOUSE = 1"
definition TWO_HOUSES :: PropertyRent where "TWO_HOUSES = 2"
definition THREE_HOUSES :: PropertyRent where "THREE_HOUSES = 3"
definition FOUR_HOUSES :: PropertyRent where "FOUR_HOUSES = 4"
definition HOTEL :: PropertyRent where "HOTEL = 5"
definition BASE_RENT :: PropertyRent where "BASE_RENT = 6"

text \<open>The ten space classes. \<open>Property name color price housePrice rent owner nbBuildings\<close>;
  a station and a utility carry their name and owner (their price and rent table are fixed
  by their constructors).\<close>

datatype space =
    Go | Jail | GoToJail | FreeParking | CommunityChest | Chance
  | Tax string int
  | Property string Color int int "int list" "pid option" PropertyRent
  | Station string "pid option"
  | Utility string "pid option"

fun isBuyable :: "space \<Rightarrow> bool" where
  "isBuyable (Property _ _ _ _ _ _ _) = True"
| "isBuyable (Station _ _) = True"
| "isBuyable (Utility _ _) = True"
| "isBuyable _ = False"

fun getOwner :: "space \<Rightarrow> pid option" where
  "getOwner (Property _ _ _ _ _ ow _) = ow"
| "getOwner (Station _ ow) = ow"
| "getOwner (Utility _ ow) = ow"
| "getOwner _ = None"

fun setOwner :: "pid option \<Rightarrow> space \<Rightarrow> space" where
  "setOwner ow (Property n c p h r _ b) = Property n c p h r ow b"
| "setOwner ow (Station n _) = Station n ow"
| "setOwner ow (Utility n _) = Utility n ow"
| "setOwner ow s = s"

fun getPrice :: "space \<Rightarrow> int" where
  "getPrice (Property _ _ p _ _ _ _) = p"
| "getPrice (Station _ _) = 200"
| "getPrice (Utility _ _) = 150"
| "getPrice _ = 0"

fun getRent :: "space \<Rightarrow> int list" where
  "getRent (Property _ _ _ _ r _ _) = r"
| "getRent (Station _ _) = [25, 50, 100, 200]"
| "getRent _ = []"

fun isProperty :: "space \<Rightarrow> bool" where
  "isProperty (Property _ _ _ _ _ _ _) = True"
| "isProperty _ = False"

fun getColor :: "space \<Rightarrow> Color option" where
  "getColor (Property _ c _ _ _ _ _) = Some c"
| "getColor _ = None"

fun getHousePrice :: "space \<Rightarrow> int" where
  "getHousePrice (Property _ _ _ h _ _ _) = h"
| "getHousePrice _ = 0"

fun getNbBuildings :: "space \<Rightarrow> PropertyRent" where
  "getNbBuildings (Property _ _ _ _ _ _ b) = b"
| "getNbBuildings _ = 0"

fun setNbBuildings :: "PropertyRent \<Rightarrow> space \<Rightarrow> space" where
  "setNbBuildings b (Property n c p h r ow _) = Property n c p h r ow b"
| "setNbBuildings b s = s"

fun colorToString :: "Color \<Rightarrow> string" where
  "colorToString PURPLE = ''purple''"
| "colorToString LIGHT_BLUE = ''light blue''"
| "colorToString PINK = ''pink''"
| "colorToString ORANGE = ''orange''"
| "colorToString RED = ''red''"
| "colorToString YELLOW = ''yellow''"
| "colorToString GREEN = ''green''"
| "colorToString BLUE = ''blue''"

subsection \<open>cards.h\<close>

text \<open>A card is a description and an action function. The action functions are the closures
  the data layer builds (\<open>createCommunityChestDeck\<close>, \<open>createChanceDeck\<close> of main.cc); each
  closure shape is one constructor, interpreted by \<open>run_effect\<close> below. \<open>None\<close> is an empty
  \<open>std::function\<close>.\<close>

datatype card_effect =
    KeepCommunityChestGOJFC
  | KeepChanceGOJFC
  | Receive int
  | PayBank int
  | AdvanceTo int
  | MoveBy int
  | SendToJail
  | FineOrChance
  | Birthday
  | Repairs int int

record card =
  description :: string
  actionFunction :: "card_effect option"

subsection \<open>The prompt layer and the sources of entropy\<close>

text \<open>
  Everything the engine reads from outside is a script in the state: the replies to
  \<open>getYesNo\<close> (\<open>True\<close> is \<open>'y'\<close>), to \<open>getNumber\<close> and to \<open>getString\<close>, the raw outputs of the
  two dice generators, and the permutations \<open>std::shuffle\<close> applies. A reply to \<open>getNumber\<close>
  is a function of the bounds of the prompt: a typed number is a constant function, the
  scripted stand-in of the TEST build draws within the bounds.
\<close>

record io =
  yesno :: "bool list"
  numbers :: "(int \<Rightarrow> int \<Rightarrow> int) list"
  strings :: "string list"
  dice1 :: "nat list"
  dice2 :: "nat list"
  shuffles :: "nat list list"

datatype error = OutOfFuel | InputExhausted | UndefinedBehaviour

subsection \<open>managers.h, gamecore.h\<close>

record game =
  board :: "space list"
  chanceDeck :: "card list"
  chanceGOJFCTaken :: bool
  communityChestDeck :: "card list"
  communityChestGOJFCTaken :: bool
  players :: "pid list"
  currentPlayer :: "pid option"
  heap :: "pid \<Rightarrow> player"
  currentDicesValue :: "int \<times> int"
  consecutiveDoubles :: int
  input :: io

section \<open>iomanager.cc\<close>

text \<open>\<open>getYesNo\<close> re-prompts until the reply is \<open>'y'\<close> or \<open>'n'\<close>; the script holds the replies
  it accepts.\<close>

definition getYesNo :: "io \<Rightarrow> error + (bool \<times> io)" where
  "getYesNo s = (case yesno s of [] \<Rightarrow> Inl InputExhausted
                 | a # as \<Rightarrow> Inr (a, s\<lparr>yesno := as\<rparr>))"

text \<open>\<open>getNumber\<close>: \<open>do { read } while (number < min || number > max)\<close>.\<close>

fun getNumber_loop :: "int \<Rightarrow> int \<Rightarrow> (int \<Rightarrow> int \<Rightarrow> int) list
    \<Rightarrow> (int \<times> (int \<Rightarrow> int \<Rightarrow> int) list) option" where
  "getNumber_loop lo hi [] = None"
| "getNumber_loop lo hi (f # fs) =
     (let number = f lo hi in
      if number < lo \<or> number > hi then getNumber_loop lo hi fs else Some (number, fs))"

definition getNumber :: "int \<Rightarrow> int \<Rightarrow> io \<Rightarrow> error + (int \<times> io)" where
  "getNumber lo hi s = (case getNumber_loop lo hi (numbers s) of
       None \<Rightarrow> Inl InputExhausted
     | Some (number, rest) \<Rightarrow> Inr (number, s\<lparr>numbers := rest\<rparr>))"

text \<open>A reply that stays within the bounds of whatever prompt it answers; \<open>getNumber\<close>
  accepts it at once.\<close>

definition inBounds :: "(int \<Rightarrow> int \<Rightarrow> int) \<Rightarrow> bool" where
  "inBounds f = (\<forall>lo hi. lo \<le> hi \<longrightarrow> lo \<le> f lo hi \<and> f lo hi \<le> hi)"

text \<open>\<open>strcasecmp\<close> in the C locale.\<close>

definition lower :: "char \<Rightarrow> char" where
  "lower c = (let n = (of_char c :: nat) in if 65 \<le> n \<and> n \<le> 90 then char_of (n + 32) else c)"

definition strcasecmp_eq :: "string \<Rightarrow> string \<Rightarrow> bool" where
  "strcasecmp_eq a b = (map lower a = map lower b)"

text \<open>\<open>getString\<close>: an empty line is refused and \<open>cin.ignore\<close> then discards the line that
  follows it; a line that matches none of the valid strings is refused.\<close>

fun getString_loop :: "string list \<Rightarrow> string list \<Rightarrow> (string \<times> string list) option" where
  "getString_loop validStrings [] = None"
| "getString_loop validStrings (str # rest) =
     (if str = [] then getString_loop validStrings (tl rest)
      else if validStrings \<noteq> [] \<and> \<not> list_ex (strcasecmp_eq str) validStrings
      then getString_loop validStrings rest
      else Some (str, rest))"

definition getString :: "string list \<Rightarrow> io \<Rightarrow> error + (string \<times> io)" where
  "getString validStrings s = (case getString_loop validStrings (strings s) of
       None \<Rightarrow> Inl InputExhausted
     | Some (str, rest) \<Rightarrow> Inr (str, s\<lparr>strings := rest\<rparr>))"

section \<open>managers.cc: Dice and PlayerManager\<close>

text \<open>\<open>Dice::roll\<close>: the distribution maps the generator's output into 1..6.\<close>

definition roll :: "nat \<Rightarrow> int" where
  "roll raw = 1 + int (raw mod 6)"

definition getMoney :: "pid \<Rightarrow> game \<Rightarrow> int" where
  "getMoney p g = money (heap g p)"

definition setMoney :: "pid \<Rightarrow> int \<Rightarrow> game \<Rightarrow> game" where
  "setMoney p m g = g\<lparr>heap := (heap g)(p := (heap g p)\<lparr>money := m\<rparr>)\<rparr>"

definition getPosition :: "pid \<Rightarrow> game \<Rightarrow> int" where
  "getPosition p g = position (heap g p)"

definition setPosition :: "pid \<Rightarrow> int \<Rightarrow> game \<Rightarrow> game" where
  "setPosition p x g = g\<lparr>heap := (heap g)(p := (heap g p)\<lparr>position := x\<rparr>)\<rparr>"

definition getRemainingTurnsInJail :: "pid \<Rightarrow> game \<Rightarrow> int" where
  "getRemainingTurnsInJail p g = remainingTurnsInJail (heap g p)"

definition setRemainingTurnsInJail :: "pid \<Rightarrow> int \<Rightarrow> game \<Rightarrow> game" where
  "setRemainingTurnsInJail p x g =
     g\<lparr>heap := (heap g)(p := (heap g p)\<lparr>remainingTurnsInJail := x\<rparr>)\<rparr>"

definition setNbStationsOwned :: "pid \<Rightarrow> int \<Rightarrow> game \<Rightarrow> game" where
  "setNbStationsOwned p x g = g\<lparr>heap := (heap g)(p := (heap g p)\<lparr>nbStationsOwned := x\<rparr>)\<rparr>"

definition setNbUtilitiesOwned :: "pid \<Rightarrow> int \<Rightarrow> game \<Rightarrow> game" where
  "setNbUtilitiesOwned p x g = g\<lparr>heap := (heap g)(p := (heap g p)\<lparr>nbUtilitiesOwned := x\<rparr>)\<rparr>"

definition setHasChanceGOJFC :: "pid \<Rightarrow> bool \<Rightarrow> game \<Rightarrow> game" where
  "setHasChanceGOJFC p x g = g\<lparr>heap := (heap g)(p := (heap g p)\<lparr>hasChanceGOJFC := x\<rparr>)\<rparr>"

definition setHasCommunityChestGOJFC :: "pid \<Rightarrow> bool \<Rightarrow> game \<Rightarrow> game" where
  "setHasCommunityChestGOJFC p x g =
     g\<lparr>heap := (heap g)(p := (heap g p)\<lparr>hasCommunityChestGOJFC := x\<rparr>)\<rparr>"

text \<open>The balances and the amount are \<open>int\<close>s: a difference or a sum that leaves the range
  of a 32-bit \<open>int\<close> is stored with the wrap-around of two's complement arithmetic (in C++
  the overflow of a signed operation is undefined; the compiled program wraps).\<close>

definition to_int32 :: "int \<Rightarrow> int" where
  "to_int32 x = (x + 2 ^ 31) mod 2 ^ 32 - 2 ^ 31"

text \<open>\<open>PlayerManager::transferMoneyFromTo\<close>; \<open>None\<close> is the null pointer, the bank. The
  debit and the clamp to 0 come first, the credit second, each on the balance as it then
  is.\<close>

definition transferMoneyFromTo :: "pid option \<Rightarrow> pid option \<Rightarrow> int \<Rightarrow> game \<Rightarrow> game" where
  "transferMoneyFromTo player1 player2 amount g =
     (let g1 = (case player1 of None \<Rightarrow> g
                | Some p1 \<Rightarrow>
                    (let g' = setMoney p1 (to_int32 (getMoney p1 g - amount)) g in
                     if getMoney p1 g' < 0 then setMoney p1 0 g' else g'))
      in (case player2 of None \<Rightarrow> g1
          | Some p2 \<Rightarrow> setMoney p2 (to_int32 (getMoney p2 g1 + amount)) g1))"

text \<open>\<open>addPlayer\<close>, \<open>removePlayer\<close> (erases the first occurrence), \<open>getPlayer\<close>.\<close>

definition addPlayer :: "pid \<Rightarrow> game \<Rightarrow> game" where
  "addPlayer p g =
     (let g1 = g\<lparr>players := players g @ [p]\<rparr>
      in if currentPlayer g1 = None then g1\<lparr>currentPlayer := Some p\<rparr> else g1)"

definition removePlayer :: "pid \<Rightarrow> game \<Rightarrow> game" where
  "removePlayer p g = g\<lparr>players := remove1 p (players g)\<rparr>"

text \<open>\<open>setNextPlayer\<close>: \<open>std::find\<close> yields the end iterator, hence the index
  \<open>players.size()\<close>, when the current player is not in the list; the remainder by an empty
  list's size is undefined.\<close>

fun find_index :: "pid \<Rightarrow> pid list \<Rightarrow> nat" where
  "find_index x [] = 0"
| "find_index x (y # ys) = (if y = x then 0 else Suc (find_index x ys))"

definition setNextPlayer :: "game \<Rightarrow> error + game" where
  "setNextPlayer g =
     (if players g = [] then Inl UndefinedBehaviour
      else
        (let currentPlayerIndex =
               (case currentPlayer g of None \<Rightarrow> length (players g)
                | Some p \<Rightarrow> find_index p (players g));
             nextIndex = (currentPlayerIndex + 1) mod length (players g)
         in Inr (g\<lparr>currentPlayer := Some (players g ! nextIndex)\<rparr>)))"

section \<open>managers.cc: BoardManager\<close>

definition rollDice :: "game \<Rightarrow> error + game" where
  "rollDice g =
     (case dice1 (input g) of [] \<Rightarrow> Inl InputExhausted
      | r1 # d1 \<Rightarrow>
        (case dice2 (input g) of [] \<Rightarrow> Inl InputExhausted
         | r2 # d2 \<Rightarrow>
             Inr (g\<lparr>currentDicesValue := (roll r1, roll r2),
                    input := (input g)\<lparr>dice1 := d1, dice2 := d2\<rparr>\<rparr>)))"

text \<open>\<open>affectOwnership\<close>: \<open>setOwner\<close> leaves a space that is not buyable as it is, which is
  the \<open>dynamic_pointer_cast\<close> test of the source.\<close>

definition affectOwnership :: "pid \<Rightarrow> nat \<Rightarrow> game \<Rightarrow> game" where
  "affectOwnership p i g = g\<lparr>board := (board g)[i := setOwner (Some p) (board g ! i)]\<rparr>"

subsection \<open>movePlayer\<close>

text \<open>
  \<open>int newPosition = (player->getPosition() + distanceToGo) % board.size();\<close>
  The sum is an \<open>int\<close> (written with the wrap-around of a 32-bit two's complement
  addition), it is converted to the 64-bit unsigned \<open>size_t\<close> for the remainder, and the
  remainder is converted back to \<open>int\<close>.
\<close>

definition to_size_t :: "int \<Rightarrow> int" where
  "to_size_t x = x mod 2 ^ 64"

definition newPosition :: "int \<Rightarrow> int \<Rightarrow> nat \<Rightarrow> int" where
  "newPosition pos distanceToGo boardSize =
     to_int32 (to_size_t (to_int32 (pos + distanceToGo)) mod int boardSize)"

text \<open>The defensive test \<open>(newPosition < 0) || (newPosition >= static_cast<int>(board.size()))\<close>.\<close>

definition outOfBounds :: "int \<Rightarrow> nat \<Rightarrow> bool" where
  "outOfBounds np boardSize = (np < 0 \<or> np \<ge> to_int32 (int boardSize))"

text \<open>The pass-Go test of \<open>movePlayer\<close>.\<close>

definition passedGo :: "int \<Rightarrow> int \<Rightarrow> int \<Rightarrow> int \<Rightarrow> bool" where
  "passedGo np pos jailTurns distanceToGo = (np < pos \<and> jailTurns = 0 \<and> distanceToGo > 0)"

text \<open>\<open>board[i]\<close> for an \<open>int\<close> index is defined for the indices of the board only.\<close>

definition onBoard :: "int \<Rightarrow> game \<Rightarrow> bool" where
  "onBoard k g = (0 \<le> k \<and> k < int (length (board g)))"

text \<open>\<open>movePlayer\<close> up to its last statement: \<open>None\<close> when it returns early, otherwise the
  state it hands to \<open>handleSpace\<close>. The two debug statements evaluate
  \<open>player->getName()\<close> with \<open>board[player->getPosition()]\<close>, and \<open>board[newPosition]\<close>, before
  the tests that follow them: without a current player, or with one of these positions
  off the board, the behaviour is undefined before the test is reached.\<close>

definition movePlayer_step :: "int \<Rightarrow> game \<Rightarrow> error + game option" where
  "movePlayer_step distanceToGo g =
     (case currentPlayer g of None \<Rightarrow> Inl UndefinedBehaviour
      | Some player \<Rightarrow>
          if \<not> onBoard (getPosition player g) g then Inl UndefinedBehaviour
          else
            (let np = newPosition (getPosition player g) distanceToGo (length (board g))
             in if \<not> onBoard np g then Inl UndefinedBehaviour
                else if outOfBounds np (length (board g)) then Inr None
                else
                  (let g1 = (if passedGo np (getPosition player g)
                                  (getRemainingTurnsInJail player g) distanceToGo
                             then transferMoneyFromTo None (Some player) 200 g else g)
                   in Inr (Some (setPosition player np g1)))))"

text \<open>\<open>movePlayer\<close>, with \<open>handleSpace\<close> passed in.\<close>

definition movePlayer :: "(game \<Rightarrow> error + game) \<Rightarrow> int \<Rightarrow> game \<Rightarrow> error + game" where
  "movePlayer handle distanceToGo g =
     (case movePlayer_step distanceToGo g of
        Inl e \<Rightarrow> Inl e
      | Inr None \<Rightarrow> Inr g
      | Inr (Some g') \<Rightarrow> handle g')"

section \<open>spaces.cc\<close>

subsection \<open>The auction\<close>

text \<open>The \<open>while (auctionPlayers.size() > 1)\<close> loop of \<open>Property::auction\<close>,
  \<open>Station::auction\<close> and \<open>Utility::auction\<close> (the three bodies are the same); the fuel
  bounds the number of iterations.\<close>

fun auction_loop :: "nat \<Rightarrow> pid list \<Rightarrow> int \<Rightarrow> game \<Rightarrow> error + (pid list \<times> int \<times> game)" where
  "auction_loop 0 auctionPlayers bid g =
     (if length auctionPlayers > 1 then Inl OutOfFuel else Inr (auctionPlayers, bid, g))"
| "auction_loop (Suc n) auctionPlayers bid g =
     (if length auctionPlayers > 1 then
        (let current = hd auctionPlayers; rest = tl auctionPlayers
         in if getMoney current g - 1 \<le> bid then auction_loop n rest bid g
            else
              (case getYesNo (input g) of Inl e \<Rightarrow> Inl e
               | Inr (answer, s) \<Rightarrow>
                   if answer then
                     (case getNumber (bid + 1) (getMoney current g - 1) s of Inl e \<Rightarrow> Inl e
                      | Inr (b, s') \<Rightarrow> auction_loop n (rest @ [current]) b (g\<lparr>input := s'\<rparr>))
                   else auction_loop n rest bid (g\<lparr>input := s\<rparr>)))
      else Inr (auctionPlayers, bid, g))"

text \<open>What a new owner's counters gain: \<open>setNbStationsOwned\<close> for a station,
  \<open>setNbUtilitiesOwned\<close> for a utility, nothing for a property.\<close>

fun countOwned :: "space \<Rightarrow> pid \<Rightarrow> game \<Rightarrow> game" where
  "countOwned (Station _ _) p g = setNbStationsOwned p (nbStationsOwned (heap g p) + 1) g"
| "countOwned (Utility _ _) p g = setNbUtilitiesOwned p (nbUtilitiesOwned (heap g p) + 1) g"
| "countOwned _ p g = g"

text \<open>\<open>auction\<close> of the space at board index \<open>i\<close>: the candidates are all the players;
  \<open>front()\<close> of an empty vector is undefined.\<close>

definition auction :: "nat \<Rightarrow> nat \<Rightarrow> game \<Rightarrow> error + game" where
  "auction fuel i g =
     (case auction_loop fuel (players g) 0 g of Inl e \<Rightarrow> Inl e
      | Inr (auctionPlayers, bid, g1) \<Rightarrow>
          (case auctionPlayers of [] \<Rightarrow> Inl UndefinedBehaviour
           | winner # _ \<Rightarrow>
               Inr (countOwned (board g ! i) winner
                      (affectOwnership winner i
                         (transferMoneyFromTo (Some winner) None bid g1)))))"

subsection \<open>Landing on a buyable space\<close>

text \<open>The rent of an owned space: \<open>getRent()[nbBuildings]\<close> for a property,
  \<open>getRent()[getNbStationsOwned() - 1]\<close> for a station, the dice times 4 or 10 for a
  utility. An index outside the rent vector is undefined.\<close>

definition rentAt :: "int list \<Rightarrow> int \<Rightarrow> error + int" where
  "rentAt r k = (if 0 \<le> k \<and> k < int (length r) then Inr (r ! nat k) else Inl UndefinedBehaviour)"

fun rentDue :: "space \<Rightarrow> pid \<Rightarrow> game \<Rightarrow> error + int" where
  "rentDue (Property n c p h r ow b) owner g = rentAt (getRent (Property n c p h r ow b)) b"
| "rentDue (Station n ow) owner g =
     rentAt (getRent (Station n ow)) (nbStationsOwned (heap g owner) - 1)"
| "rentDue (Utility n ow) owner g =
     Inr ((fst (currentDicesValue g) + snd (currentDicesValue g))
          * (if nbUtilitiesOwned (heap g owner) = 1 then 4 else 10))"
| "rentDue _ owner g = Inl UndefinedBehaviour"

text \<open>\<open>Property::action\<close>, \<open>Station::action\<close>, \<open>Utility::action\<close> for the space \<open>sp\<close> at
  board index \<open>i\<close>.\<close>

definition Buyable_action :: "nat \<Rightarrow> nat \<Rightarrow> space \<Rightarrow> game \<Rightarrow> error + game" where
  "Buyable_action fuel i sp g =
     (case currentPlayer g of None \<Rightarrow> Inl UndefinedBehaviour
      | Some player \<Rightarrow>
          (case getOwner sp of
             Some owner \<Rightarrow>
               if owner = player then Inr g
               else (case rentDue sp owner g of Inl e \<Rightarrow> Inl e
                     | Inr rent \<Rightarrow> Inr (transferMoneyFromTo (Some player) (Some owner) rent g))
           | None \<Rightarrow>
               (case getYesNo (input g) of Inl e \<Rightarrow> Inl e
                | Inr (answer, s) \<Rightarrow>
                    (let g1 = g\<lparr>input := s\<rparr>
                     in if answer then
                          (if getMoney player g1 < getPrice sp then auction fuel i g1
                           else Inr (countOwned sp player
                                  (affectOwnership player i
                                     (transferMoneyFromTo (Some player) None (getPrice sp) g1))))
                        else auction fuel i g1))))"

subsection \<open>The other spaces\<close>

text \<open>\<open>Go::action\<close> and \<open>Tax::action\<close>.\<close>

definition Go_action :: "game \<Rightarrow> error + game" where
  "Go_action g = (case currentPlayer g of None \<Rightarrow> Inl UndefinedBehaviour
                  | Some player \<Rightarrow> Inr (transferMoneyFromTo None (Some player) 200 g))"

definition Tax_action :: "int \<Rightarrow> game \<Rightarrow> error + game" where
  "Tax_action amount g = (case currentPlayer g of None \<Rightarrow> Inl UndefinedBehaviour
                  | Some player \<Rightarrow> Inr (transferMoneyFromTo (Some player) None amount g))"

text \<open>\<open>Jail::action\<close>. The first prompt is made only to a player who holds a token; the
  statement after the fine-or-roll choice decrements the remaining turns.\<close>

definition useGOJFC :: "pid \<Rightarrow> game \<Rightarrow> game" where
  "useGOJFC player g =
     (let g1 = setRemainingTurnsInJail player 0 g
      in if hasChanceGOJFC (heap g1 player)
         then (setHasChanceGOJFC player False g1)\<lparr>chanceGOJFCTaken := False\<rparr>
         else (setHasCommunityChestGOJFC player False g1)\<lparr>communityChestGOJFCTaken := False\<rparr>)"

definition serveTurn :: "pid \<Rightarrow> game \<Rightarrow> game" where
  "serveTurn player g =
     setRemainingTurnsInJail player (getRemainingTurnsInJail player g - 1) g"

definition fineOrRoll :: "pid \<Rightarrow> game \<Rightarrow> error + game" where
  "fineOrRoll player g =
     (case getYesNo (input g) of Inl e \<Rightarrow> Inl e
      | Inr (answer, s) \<Rightarrow>
          (let g1 = g\<lparr>input := s\<rparr>
           in if answer then
                (if getMoney player g1 < 50 then Inr (serveTurn player g1)
                 else Inr (setRemainingTurnsInJail player 0
                             (transferMoneyFromTo (Some player) None 50 g1)))
              else
                (case rollDice g1 of Inl e \<Rightarrow> Inl e
                 | Inr g2 \<Rightarrow>
                     if fst (currentDicesValue g2) = snd (currentDicesValue g2)
                     then Inr (setRemainingTurnsInJail player 0 g2)
                     else Inr (serveTurn player g2))))"

definition Jail_action :: "game \<Rightarrow> error + game" where
  "Jail_action g =
     (case currentPlayer g of None \<Rightarrow> Inl UndefinedBehaviour
      | Some player \<Rightarrow>
          if getRemainingTurnsInJail player g > 0 then
            (if hasChanceGOJFC (heap g player) \<or> hasCommunityChestGOJFC (heap g player) then
               (case getYesNo (input g) of Inl e \<Rightarrow> Inl e
                | Inr (answer, s) \<Rightarrow>
                    if answer then Inr (useGOJFC player (g\<lparr>input := s\<rparr>))
                    else fineOrRoll player (g\<lparr>input := s\<rparr>))
             else fineOrRoll player g)
          else Inr g)"

section \<open>managers.cc: groups, building, the decks\<close>

subsection \<open>getOwnedGroups\<close>

text \<open>The \<open>properties\<close> map of the constructor: for each colour, the properties of the board
  in board order. \<open>std::map\<close> iterates its keys in the order of the enumeration, and only
  colours with a property are keys.\<close>

definition colorsInOrder :: "Color list" where
  "colorsInOrder = [PURPLE, LIGHT_BLUE, PINK, ORANGE, RED, YELLOW, GREEN, BLUE]"

definition propertiesOfColor :: "space list \<Rightarrow> Color \<Rightarrow> nat list" where
  "propertiesOfColor b c = filter (\<lambda>i. getColor (b ! i) = Some c) [0..<length b]"

definition setBuildingsAt :: "nat \<Rightarrow> PropertyRent \<Rightarrow> game \<Rightarrow> game" where
  "setBuildingsAt i lvl g = g\<lparr>board := (board g)[i := setNbBuildings lvl (board g ! i)]\<rparr>"

definition upgradeToFullGroup :: "nat \<Rightarrow> game \<Rightarrow> game" where
  "upgradeToFullGroup i g =
     (if getNbBuildings (board g ! i) = BASE_RENT then setBuildingsAt i FULL_GROUP g else g)"

fun getOwnedGroups_loop :: "pid \<Rightarrow> Color list \<Rightarrow> game \<Rightarrow> nat list \<times> game" where
  "getOwnedGroups_loop player [] g = ([], g)"
| "getOwnedGroups_loop player (c # cs) g =
     (let propertyList = propertiesOfColor (board g) c
      in if propertyList \<noteq> []
            \<and> list_all (\<lambda>i. getOwner (board g ! i) = Some player) propertyList
         then (let g1 = fold upgradeToFullGroup propertyList g;
                   r = getOwnedGroups_loop player cs g1
               in (propertyList @ fst r, snd r))
         else getOwnedGroups_loop player cs g)"

definition getOwnedGroups :: "pid \<Rightarrow> game \<Rightarrow> nat list \<times> game" where
  "getOwnedGroups player g = getOwnedGroups_loop player colorsInOrder g"

subsection \<open>buildOnProperties\<close>

definition INT_MAX :: int where "INT_MAX = 2 ^ 31 - 1"
definition INT_MIN :: int where "INT_MIN = - (2 ^ 31)"

text \<open>\<open>buildingsPerProperty[property] = totalBuildingsOnProperty\<close> on a \<open>std::map\<close>.\<close>

fun assign :: "nat \<Rightarrow> int \<Rightarrow> (nat \<times> int) list \<Rightarrow> (nat \<times> int) list" where
  "assign k v [] = [(k, v)]"
| "assign k v ((k', v') # kvs) = (if k = k' then (k, v) # kvs else (k', v') # assign k v kvs)"

text \<open>The loop that asks, for each property of the group, how many buildings to add;
  \<open>cap\<close> is \<open>player->getMoney() / properties[0]->getHousePrice()\<close>. It yields the map, the
  least and the greatest resulting level, and the number of new buildings.\<close>

fun askBuildings :: "space list \<Rightarrow> int \<Rightarrow> nat list \<Rightarrow> (nat \<times> int) list \<Rightarrow> int \<Rightarrow> int \<Rightarrow> int
     \<Rightarrow> io \<Rightarrow> error + ((nat \<times> int) list \<times> int \<times> int \<times> int \<times> io)" where
  "askBuildings b cap [] buildingsPerProperty minBuildings maxBuildings totalNewBuildings s =
     Inr (buildingsPerProperty, minBuildings, maxBuildings, totalNewBuildings, s)"
| "askBuildings b cap (i # rest) buildingsPerProperty minBuildings maxBuildings
       totalNewBuildings s =
     (let currentBuildingsOnProperty = getNbBuildings (b ! i);
          maxTheoretical = min (5 - currentBuildingsOnProperty) cap
      in case getNumber 0 maxTheoretical s of Inl e \<Rightarrow> Inl e
         | Inr (additionalBuildingsOnProperty, s') \<Rightarrow>
             (let totalBuildingsOnProperty =
                    currentBuildingsOnProperty + additionalBuildingsOnProperty
              in askBuildings b cap rest
                   (assign i totalBuildingsOnProperty buildingsPerProperty)
                   (min minBuildings totalBuildingsOnProperty)
                   (max maxBuildings totalBuildingsOnProperty)
                   (totalNewBuildings + additionalBuildingsOnProperty) s'))"

text \<open>\<open>buildOnProperties(properties, player, attempts)\<close>; the properties are given by their
  board indices. \<open>properties[0]\<close> of an empty vector and a division by a house price of 0
  are undefined.\<close>

function buildOnProperties :: "nat list \<Rightarrow> pid \<Rightarrow> int \<Rightarrow> game \<Rightarrow> error + game" where
  "buildOnProperties properties player attempts g =
     (if attempts > 50 then Inr g
      else if properties = [] \<or> getHousePrice (board g ! hd properties) = 0
      then Inl UndefinedBehaviour
      else
        (let housePrice = getHousePrice (board g ! hd properties)
         in case askBuildings (board g) (getMoney player g sdiv housePrice) properties []
                   INT_MAX INT_MIN 0 (input g) of
              Inl e \<Rightarrow> Inl e
            | Inr (buildingsPerProperty, minBuildings, maxBuildings, totalNewBuildings, s) \<Rightarrow>
                if maxBuildings - minBuildings > 1
                then buildOnProperties properties player (attempts + 1) (g\<lparr>input := s\<rparr>)
                else if totalNewBuildings * housePrice > getMoney player g
                then Inr (g\<lparr>input := s\<rparr>)
                else Inr (fold (\<lambda>kv. setBuildingsAt (fst kv) (snd kv)) buildingsPerProperty
                            (transferMoneyFromTo (Some player) None
                               (totalNewBuildings * housePrice) (g\<lparr>input := s\<rparr>)))))"
  by pat_completeness auto
termination
  by (relation "measure (\<lambda>(properties, player, attempts, g). nat (51 - attempts))") auto

declare buildOnProperties.simps [simp del]

subsection \<open>Drawing a card\<close>

text \<open>\<open>description.find(pattern) != std::string::npos\<close>.\<close>

fun starts_with :: "string \<Rightarrow> string \<Rightarrow> bool" where
  "starts_with [] s = True"
| "starts_with (p # ps) [] = False"
| "starts_with (p # ps) (c # cs) = (p = c \<and> starts_with ps cs)"

fun str_find :: "string \<Rightarrow> string \<Rightarrow> bool" where
  "str_find pattern [] = (pattern = [])"
| "str_find pattern (c # cs) = (starts_with pattern (c # cs) \<or> str_find pattern cs)"

text \<open>\<open>std::shuffle\<close>: the script names the permutation, as the list of the old indices in
  their new order.\<close>

definition shuffle :: "'a list \<Rightarrow> io \<Rightarrow> error + ('a list \<times> io)" where
  "shuffle deck s =
     (case shuffles s of [] \<Rightarrow> Inl InputExhausted
      | perm # rest \<Rightarrow>
          if length perm = length deck \<and> distinct perm
             \<and> list_all (\<lambda>k. k < length deck) perm
          then Inr (map (\<lambda>k. deck ! k) perm, s\<lparr>shuffles := rest\<rparr>)
          else Inl InputExhausted)"

text \<open>The action functions of main.cc. \<open>handle\<close> is \<open>handleSpace\<close> and \<open>drawChance\<close> is
  \<open>drawChanceCard\<close>. \<open>AdvanceTo k\<close> is \<open>movePlayer(board.size() + k - position)\<close>, an
  unsigned sum converted to the \<open>int\<close> parameter.\<close>

definition repairCost :: "space list \<Rightarrow> nat list \<Rightarrow> int \<Rightarrow> int \<Rightarrow> int" where
  "repairCost b owned perHouse perHotel =
     (let nbHouses = sum_list (map (\<lambda>i. if getNbBuildings (b ! i) > FULL_GROUP
                                           \<and> getNbBuildings (b ! i) < HOTEL
                                         then getNbBuildings (b ! i) else 0) owned);
          nbHotels = int (length (filter (\<lambda>i. getNbBuildings (b ! i) = HOTEL) owned))
      in nbHouses * perHouse + nbHotels * perHotel)"

definition run_effect :: "(game \<Rightarrow> error + game) \<Rightarrow> (game \<Rightarrow> error + game) \<Rightarrow> card_effect
     \<Rightarrow> game \<Rightarrow> error + game" where
  "run_effect handle drawChance eff g =
     (case currentPlayer g of None \<Rightarrow> Inl UndefinedBehaviour
      | Some cur \<Rightarrow>
         (case eff of
            KeepCommunityChestGOJFC \<Rightarrow>
              Inr ((setHasCommunityChestGOJFC cur True g)\<lparr>communityChestGOJFCTaken := True\<rparr>)
          | KeepChanceGOJFC \<Rightarrow>
              Inr ((setHasChanceGOJFC cur True g)\<lparr>chanceGOJFCTaken := True\<rparr>)
          | Receive n \<Rightarrow> Inr (transferMoneyFromTo None (Some cur) n g)
          | PayBank n \<Rightarrow> Inr (transferMoneyFromTo (Some cur) None n g)
          | AdvanceTo k \<Rightarrow>
              movePlayer handle
                (to_int32 (to_size_t (int (length (board g)) + k - getPosition cur g))) g
          | MoveBy d \<Rightarrow> movePlayer handle d g
          | SendToJail \<Rightarrow> handle (setPosition cur 10 (setRemainingTurnsInJail cur 3 g))
          | FineOrChance \<Rightarrow>
              (case getYesNo (input g) of Inl e \<Rightarrow> Inl e
               | Inr (choice, s) \<Rightarrow>
                   if choice then drawChance (g\<lparr>input := s\<rparr>)
                   else Inr (transferMoneyFromTo (Some cur) None 10 (g\<lparr>input := s\<rparr>)))
          | Birthday \<Rightarrow>
              Inr (fold (\<lambda>player g'. if player \<noteq> cur
                                      then transferMoneyFromTo (Some player) (Some cur) 10 g'
                                      else g') (players g) g)
          | Repairs perHouse perHotel \<Rightarrow>
              (let r = getOwnedGroups cur g
               in Inr (transferMoneyFromTo (Some cur) None
                         (repairCost (board (snd r)) (fst r) perHouse perHotel) (snd r)))))"

text \<open>\<open>ChanceCard::action\<close> and \<open>CommunityChestCard::action\<close>.\<close>

definition Card_action :: "(game \<Rightarrow> error + game) \<Rightarrow> (game \<Rightarrow> error + game) \<Rightarrow> card
     \<Rightarrow> game \<Rightarrow> error + game" where
  "Card_action handle drawChance c g =
     (case actionFunction c of None \<Rightarrow> Inr g
      | Some eff \<Rightarrow> run_effect handle drawChance eff g)"

text \<open>\<open>drawChanceCard\<close> and \<open>drawCommunityChestCard\<close>; the fuel bounds the re-draws.\<close>

primrec drawChanceCard :: "nat \<Rightarrow> (game \<Rightarrow> error + game) \<Rightarrow> game \<Rightarrow> error + game" where
  "drawChanceCard 0 handle g = Inl OutOfFuel"
| "drawChanceCard (Suc n) handle g =
     (if chanceDeck g = [] then Inr g
      else
        (case shuffle (chanceDeck g) (input g) of Inl e \<Rightarrow> Inl e
         | Inr (deck, s) \<Rightarrow>
             (let g1 = g\<lparr>chanceDeck := deck, input := s\<rparr>; c = hd deck
              in if str_find ''Get Out of Jail Free'' (description c) \<and> chanceGOJFCTaken g1
                 then drawChanceCard n handle g1
                 else Card_action handle (drawChanceCard n handle) c g1)))"

primrec drawCommunityChestCard :: "nat \<Rightarrow> (game \<Rightarrow> error + game) \<Rightarrow> game \<Rightarrow> error + game" where
  "drawCommunityChestCard 0 handle g = Inl OutOfFuel"
| "drawCommunityChestCard (Suc n) handle g =
     (if communityChestDeck g = [] then Inr g
      else
        (case shuffle (communityChestDeck g) (input g) of Inl e \<Rightarrow> Inl e
         | Inr (deck, s) \<Rightarrow>
             (let g1 = g\<lparr>communityChestDeck := deck, input := s\<rparr>; c = hd deck
              in if str_find ''Get Out of Jail Free'' (description c) \<and> chanceGOJFCTaken g1
                 then drawCommunityChestCard n handle g1
                 else Card_action handle (drawChanceCard n handle) c g1)))"

subsection \<open>handleSpace\<close>

text \<open>The dispatch on the class of the space: \<open>space->action(shared_from_this())\<close>.\<close>

definition space_action :: "nat \<Rightarrow> (game \<Rightarrow> error + game) \<Rightarrow> nat \<Rightarrow> space \<Rightarrow> game
     \<Rightarrow> error + game" where
  "space_action fuel handle i sp g =
     (case sp of
        Go \<Rightarrow> Go_action g
      | Jail \<Rightarrow> Jail_action g
      | GoToJail \<Rightarrow>
          (case currentPlayer g of None \<Rightarrow> Inl UndefinedBehaviour
           | Some player \<Rightarrow> movePlayer handle 20 (setRemainingTurnsInJail player 3 g))
      | FreeParking \<Rightarrow> Inr g
      | CommunityChest \<Rightarrow> drawCommunityChestCard fuel handle g
      | Chance \<Rightarrow> drawChanceCard fuel handle g
      | Tax n amount \<Rightarrow> Tax_action amount g
      | Property n c p h r ow b \<Rightarrow> Buyable_action fuel i sp g
      | Station n ow \<Rightarrow> Buyable_action fuel i sp g
      | Utility n ow \<Rightarrow> Buyable_action fuel i sp g)"

text \<open>\<open>handleSpace\<close>: \<open>board[player->getPosition()]\<close> outside the board is undefined. The
  fuel bounds the chain of actions one landing can start (a card that moves the player
  lands them on another space).\<close>

primrec handleSpace :: "nat \<Rightarrow> game \<Rightarrow> error + game" where
  "handleSpace 0 g = Inl OutOfFuel"
| "handleSpace (Suc n) g =
     (case currentPlayer g of None \<Rightarrow> Inl UndefinedBehaviour
      | Some player \<Rightarrow>
          (let pos = getPosition player g
           in if onBoard pos g
              then space_action n (handleSpace n) (nat pos) (board g ! nat pos) g
              else Inl UndefinedBehaviour))"

section \<open>gamecore.cc\<close>

subsection \<open>The build phase of a turn\<close>

text \<open>\<open>propertiesByColor\<close>: the owned groups keyed by the colour's name (a \<open>std::map\<close> on
  strings, so in alphabetical order), without the groups whose properties all carry a
  hotel.\<close>

definition colorsByName :: "Color list" where
  "colorsByName = [BLUE, GREEN, LIGHT_BLUE, ORANGE, PINK, PURPLE, RED, YELLOW]"

definition propertiesByColor :: "space list \<Rightarrow> nat list \<Rightarrow> (string \<times> nat list) list" where
  "propertiesByColor b owned_groups =
     filter (\<lambda>kv. \<not> list_all (\<lambda>i. getNbBuildings (b ! i) = HOTEL) (snd kv))
       (filter (\<lambda>kv. snd kv \<noteq> [])
          (map (\<lambda>c. (colorToString c, filter (\<lambda>i. getColor (b ! i) = Some c) owned_groups))
               colorsByName))"

text \<open>The \<open>while (true)\<close> loop of \<open>playTurn\<close>; the fuel bounds its iterations.\<close>

primrec buildPhase :: "nat \<Rightarrow> game \<Rightarrow> error + game" where
  "buildPhase 0 g = Inl OutOfFuel"
| "buildPhase (Suc n) g =
     (case currentPlayer g of None \<Rightarrow> Inl UndefinedBehaviour
      | Some cur \<Rightarrow>
          (let r = getOwnedGroups cur g; owned_groups = fst r; g1 = snd r
           in if owned_groups \<noteq> [] then
                (let byColor = propertiesByColor (board g1) owned_groups
                 in if byColor \<noteq> [] then
                      (case getYesNo (input g1) of Inl e \<Rightarrow> Inl e
                       | Inr (build, s) \<Rightarrow>
                           if build then
                             (case getString (map fst byColor) s of Inl e \<Rightarrow> Inl e
                              | Inr (color, s') \<Rightarrow>
                                  (case map_of byColor color of
                                     Some grp \<Rightarrow>
                                       (case buildOnProperties grp cur 0 (g1\<lparr>input := s'\<rparr>) of
                                          Inl e \<Rightarrow> Inl e
                                        | Inr g2 \<Rightarrow> buildPhase n g2)
                                   | None \<Rightarrow> buildPhase n (g1\<lparr>input := s'\<rparr>)))
                           else Inr (g1\<lparr>input := s\<rparr>))
                    else Inr g1)
              else Inr g1))"

subsection \<open>The bankruptcy check of a turn\<close>

text \<open>The inner loop over the board: every buyable space of the player loses its owner, and
  a property goes back to the base level.\<close>

definition releaseSpaces :: "pid \<Rightarrow> game \<Rightarrow> game" where
  "releaseSpaces player g =
     g\<lparr>board := map (\<lambda>sp. if isBuyable sp \<and> getOwner sp = Some player
                           then setNbBuildings BASE_RENT (setOwner None sp) else sp)
                     (board g)\<rparr>"

text \<open>\<open>for (int i = 0; i < getNbPlayers(); i++)\<close>, with \<open>removePlayer\<close> in its body.\<close>

function checkBankruptcy :: "nat \<Rightarrow> game \<Rightarrow> game" where
  "checkBankruptcy i g =
     (if i < length (players g) then
        (let player = players g ! i
         in if getMoney player g = 0
            then checkBankruptcy (i + 1) (removePlayer player (releaseSpaces player g))
            else checkBankruptcy (i + 1) g)
      else g)"
  by pat_completeness auto
termination
  by (relation "measure (\<lambda>(i, g). length (players g) - i)")
     (auto simp: removePlayer_def releaseSpaces_def length_remove1)

subsection \<open>playTurn\<close>

text \<open>The statements that end a full turn: the bankruptcy check, \<open>setNextPlayer\<close>, and the
  reset of the doubles counter.\<close>

definition endTurn :: "game \<Rightarrow> error + game" where
  "endTurn g = (case setNextPlayer (checkBankruptcy 0 g) of Inl e \<Rightarrow> Inl e
                | Inr g' \<Rightarrow> Inr (g'\<lparr>consecutiveDoubles := 0\<rparr>))"

text \<open>\<open>GameCore::playTurn\<close>. The fuel bounds the extra turns of a run of doubles and is
  handed to \<open>handleSpace\<close> and to the build phase.\<close>

primrec playTurn :: "nat \<Rightarrow> game \<Rightarrow> error + game" where
  "playTurn 0 g = Inl OutOfFuel"
| "playTurn (Suc n) g =
     (case currentPlayer g of None \<Rightarrow> setNextPlayer g
      | Some cur \<Rightarrow>
          if getRemainingTurnsInJail cur g > 0 then
            (case handleSpace n g of Inl e \<Rightarrow> Inl e | Inr g1 \<Rightarrow> setNextPlayer g1)
          else
            (case rollDice g of Inl e \<Rightarrow> Inl e
             | Inr g1 \<Rightarrow>
                 (let dicesValue = currentDicesValue g1
                  in case movePlayer (handleSpace n) (fst dicesValue + snd dicesValue) g1 of
                       Inl e \<Rightarrow> Inl e
                     | Inr g2 \<Rightarrow>
                         (case currentPlayer g2 of None \<Rightarrow> Inl UndefinedBehaviour
                          | Some c \<Rightarrow>
                              if fst dicesValue = snd dicesValue then
                                (let g3 = g2\<lparr>consecutiveDoubles := consecutiveDoubles g2 + 1\<rparr>
                                 in if consecutiveDoubles g3 = 3 then
                                      (case handleSpace n
                                              (setRemainingTurnsInJail c 3 (setPosition c 10 g3)) of
                                         Inl e \<Rightarrow> Inl e
                                       | Inr g4 \<Rightarrow>
                                           (case setNextPlayer g4 of Inl e \<Rightarrow> Inl e
                                            | Inr g5 \<Rightarrow> Inr (g5\<lparr>consecutiveDoubles := 0\<rparr>)))
                                    else if getRemainingTurnsInJail c g3 > 0 then Inr g3
                                    else if getMoney c g3 > 0 then
                                      (case playTurn n g3 of Inl e \<Rightarrow> Inl e
                                       | Inr g4 \<Rightarrow> endTurn g4)
                                    else endTurn g3)
                              else if getMoney c g2 > 0 then
                                (case buildPhase n g2 of Inl e \<Rightarrow> Inl e
                                 | Inr g3 \<Rightarrow> endTurn g3)
                              else endTurn g2))))"

subsection \<open>Construction and setup\<close>

text \<open>The constructors of \<open>GameCore\<close>, \<open>BoardManager\<close> and \<open>PlayerManager\<close>: no player, both
  token flags false, the dice pair value-initialised. \<open>createPlayer\<close> is the body of the
  setup loop of \<open>startGame\<close>: \<open>addPlayer(std::make_shared<Player>(name))\<close>, the new object at
  address \<open>p\<close>.\<close>

definition noInput :: io where
  "noInput = \<lparr> yesno = [], numbers = [], strings = [], dice1 = [], dice2 = [], shuffles = [] \<rparr>"

definition newGame :: "space list \<Rightarrow> card list \<Rightarrow> card list \<Rightarrow> game" where
  "newGame spaces communityChestCards chanceCards =
     \<lparr> board = spaces, chanceDeck = chanceCards, chanceGOJFCTaken = False,
       communityChestDeck = communityChestCards, communityChestGOJFCTaken = False,
       players = [], currentPlayer = None, heap = (\<lambda>p. Player []),
       currentDicesValue = (0, 0), consecutiveDoubles = 0, input = noInput \<rparr>"

definition createPlayer :: "pid \<Rightarrow> string \<Rightarrow> game \<Rightarrow> game" where
  "createPlayer p nm g = addPlayer p (g\<lparr>heap := (heap g)(p := Player nm)\<rparr>)"

section \<open>Concrete games\<close>

text \<open>Small games on which the theorems below are instantiated. Alice is player 0 and
  moves first, Bob is player 1, Charlie player 2.\<close>

definition twoPlayers :: "space list \<Rightarrow> card list \<Rightarrow> card list \<Rightarrow> game" where
  "twoPlayers spaces cc ch =
     createPlayer 1 ''Bob'' (createPlayer 0 ''Alice'' (newGame spaces cc ch))"

definition threePlayers :: "space list \<Rightarrow> card list \<Rightarrow> card list \<Rightarrow> game" where
  "threePlayers spaces cc ch = createPlayer 2 ''Charlie'' (twoPlayers spaces cc ch)"

text \<open>A board of three spaces with Alice on the last one.\<close>

definition lapGame :: game where
  "lapGame = setPosition 0 2 (twoPlayers [Go, FreeParking, FreeParking] [] [])"

text \<open>Bob holds the community-chest token; the deck is its get-out-of-jail-free card alone,
  under the description \<open>d\<close>; it is Alice's draw. In \<open>bothHeld\<close> Bob holds the two tokens and
  both decks are their get-out-of-jail-free card.\<close>

definition ccGOJFC :: "string \<Rightarrow> card" where
  "ccGOJFC d = \<lparr> description = d, actionFunction = Some KeepCommunityChestGOJFC \<rparr>"

definition chanceGOJFC :: "string \<Rightarrow> card" where
  "chanceGOJFC d = \<lparr> description = d, actionFunction = Some KeepChanceGOJFC \<rparr>"

definition heldByBob :: "string \<Rightarrow> game" where
  "heldByBob d =
     (setHasCommunityChestGOJFC 1 True (twoPlayers [Go] [ccGOJFC d] []))
       \<lparr> communityChestGOJFCTaken := True, input := noInput\<lparr>shuffles := [[0]]\<rparr> \<rparr>"

definition bothHeld :: "string \<Rightarrow> game" where
  "bothHeld d =
     (setHasChanceGOJFC 1 True
        (setHasCommunityChestGOJFC 1 True (twoPlayers [Go] [ccGOJFC d] [chanceGOJFC d])))
       \<lparr> communityChestGOJFCTaken := True, chanceGOJFCTaken := True,
         input := noInput\<lparr>shuffles := [[0]]\<rparr> \<rparr>"

text \<open>Alice is three spaces from a community-chest space whose deck is the birthday card;
  Bob has 10 and Charlie 5, and Charlie owns the station. The dice show 1 and 2.\<close>

definition birthdayCard :: card where
  "birthdayCard =
     \<lparr> description = ''It's your birthday, each player must give you 10''
                       @ [CHR 0xE2, CHR 0x82, CHR 0xAC],
       actionFunction = Some Birthday \<rparr>"

definition birthdayGame :: game where
  "birthdayGame =
     (setMoney 2 5 (setMoney 1 10
        (threePlayers [Go, FreeParking, Station ''Gare de Lyon'' (Some 2), CommunityChest]
           [birthdayCard] [])))
       \<lparr> input := noInput\<lparr>dice1 := [0], dice2 := [1], shuffles := [[0]]\<rparr> \<rparr>"

text \<open>Alice is in jail for two more turns with exactly the fine in hand, and pays it.\<close>

definition jailedGame :: game where
  "jailedGame =
     (setMoney 0 50 (setRemainingTurnsInJail 0 2 (setPosition 0 10
        (twoPlayers [Go, FreeParking, FreeParking, FreeParking, FreeParking, FreeParking,
                     FreeParking, FreeParking, FreeParking, FreeParking, Jail] [] []))))
       \<lparr> input := noInput\<lparr>yesno := [True]\<rparr> \<rparr>"

text \<open>Alice is in jail with both tokens and accepts to use a card.\<close>

definition tokenGame :: game where
  "tokenGame =
     (setHasCommunityChestGOJFC 0 True (setHasChanceGOJFC 0 True
        (setRemainingTurnsInJail 0 2 (twoPlayers [Go, Jail] [] []))))
       \<lparr> chanceGOJFCTaken := True, communityChestGOJFCTaken := True,
         input := noInput\<lparr>yesno := [True]\<rparr> \<rparr>"

text \<open>Alice owns the pink group, with no building yet, and answers the three prompts of
  \<open>buildOnProperties\<close> with \<open>a\<close>, \<open>b\<close> and \<open>c\<close>.\<close>

definition pinkGroup :: "space list" where
  "pinkGroup = [Go,
     Property ''Boulevard de la Villette'' PINK 140 100 [20, 50, 150, 450, 625, 750, 10]
       (Some 0) FULL_GROUP,
     Property ''Avenue de Neuilly'' PINK 140 100 [20, 50, 150, 450, 625, 750, 10]
       (Some 0) FULL_GROUP,
     Property ''Rue de Paradis'' PINK 160 100 [24, 60, 180, 500, 700, 900, 12]
       (Some 0) FULL_GROUP]"

definition buildGame :: "int \<Rightarrow> int \<Rightarrow> int \<Rightarrow> game" where
  "buildGame a b c = (twoPlayers pinkGroup [] [])
       \<lparr> input := noInput\<lparr>numbers := [\<lambda>lo hi. a, \<lambda>lo hi. b, \<lambda>lo hi. c]\<rparr> \<rparr>"

text \<open>Three candidates with 40, 100 and 60 for an unowned station; the first and the third
  decline, the second bids 55.\<close>

definition auctionGame :: game where
  "auctionGame =
     (setMoney 2 60 (setMoney 1 100 (setMoney 0 40
        (threePlayers [Go, Station ''Gare de Lyon'' None] [] []))))
       \<lparr> input := noInput\<lparr>yesno := [False, True, False], numbers := [\<lambda>lo hi. 55]\<rparr> \<rparr>"

text \<open>The same three candidates with scripts as long as the bound on the length of an
  auction asks. In \<open>longAuction\<close> the replies are the same three, then refusals; the first
  amount typed is 200, which no prompt of this auction accepts, every other one is 55
  brought within the bounds of the prompt. In \<open>quietAuction\<close> every reply is a refusal.\<close>

definition clamp55 :: "int \<Rightarrow> int \<Rightarrow> int" where
  "clamp55 lo hi = max lo (min hi 55)"

definition quietAuction :: game where
  "quietAuction = auctionGame
     \<lparr> input := noInput\<lparr>yesno := replicate 102 False, numbers := replicate 102 clamp55\<rparr> \<rparr>"

definition longAuction :: game where
  "longAuction = auctionGame
     \<lparr> input := noInput\<lparr>yesno := [False, True, False] @ replicate 100 False,
                          numbers := (\<lambda>lo hi. 200) # replicate 102 clamp55\<rparr> \<rparr>"

section \<open>Basic facts\<close>

lemma to_int32_id: "- (2 ^ 31) \<le> x \<Longrightarrow> x < 2 ^ 31 \<Longrightarrow> to_int32 x = x"
  by (simp add: to_int32_def)

lemma to_size_t_id: "0 \<le> x \<Longrightarrow> x < 2 ^ 64 \<Longrightarrow> to_size_t x = x"
  by (simp add: to_size_t_def)

lemma newPosition_range:
  assumes "0 < L" "int L < 2 ^ 31"
  shows "0 \<le> newPosition pos d L \<and> newPosition pos d L < int L"
proof -
  let ?r = "to_size_t (to_int32 (pos + d)) mod int L"
  have r: "0 \<le> ?r" "?r < int L" using assms by simp_all
  then have "to_int32 ?r = ?r" using assms by (intro to_int32_id) linarith+
  then show ?thesis using r by (simp add: newPosition_def)
qed

lemma newPosition_forward:
  assumes "0 \<le> pos" "0 < d" "pos + d < 2 ^ 31" "0 < L" "int L < 2 ^ 31"
  shows "newPosition pos d L = (pos + d) mod int L"
proof -
  have a: "to_int32 (pos + d) = pos + d" using assms by (intro to_int32_id) linarith+
  have "(2::int) ^ 31 < 2 ^ 64" by simp
  then have b: "to_size_t (pos + d) = pos + d" using assms by (intro to_size_t_id) linarith+
  let ?r = "(pos + d) mod int L"
  have r: "0 \<le> ?r" "?r < int L" using assms by simp_all
  then have "to_int32 ?r = ?r" using assms by (intro to_int32_id) linarith+
  then show ?thesis by (simp add: newPosition_def a b)
qed

lemma not_outOfBounds:
  assumes "0 < L" "int L < 2 ^ 31"
  shows "\<not> outOfBounds (newPosition pos d L) L"
proof -
  have "to_int32 (int L) = int L" using assms by (intro to_int32_id) linarith+
  then show ?thesis using newPosition_range [OF assms, of pos d] by (simp add: outOfBounds_def)
qed

lemma getMoney_setPosition [simp]: "getMoney q (setPosition p x g) = getMoney q g"
  by (simp add: getMoney_def setPosition_def)

lemma getPosition_setPosition [simp]: "getPosition p (setPosition p x g) = x"
  by (simp add: getPosition_def setPosition_def)

lemma getMoney_credit_wraps:
  "getMoney p (transferMoneyFromTo None (Some p) a g) = to_int32 (getMoney p g + a)"
  by (simp add: transferMoneyFromTo_def getMoney_def setMoney_def)

lemma getMoney_credit:
  "- (2 ^ 31) \<le> getMoney p g + a \<Longrightarrow> getMoney p g + a < 2 ^ 31
     \<Longrightarrow> getMoney p (transferMoneyFromTo None (Some p) a g) = getMoney p g + a"
  by (simp add: getMoney_credit_wraps to_int32_id)

lemma getMoney_debit_wraps:
  "getMoney p (transferMoneyFromTo (Some p) None a g) = max 0 (to_int32 (getMoney p g - a))"
  by (simp add: transferMoneyFromTo_def getMoney_def setMoney_def Let_def max_def)

lemma getMoney_debit:
  "a \<le> getMoney p g \<Longrightarrow> getMoney p g - a < 2 ^ 31
     \<Longrightarrow> getMoney p (transferMoneyFromTo (Some p) None a g) = getMoney p g - a"
  by (simp add: getMoney_debit_wraps to_int32_id)

lemma counters_transfer [simp]:
  "nbStationsOwned (heap (transferMoneyFromTo a b x g) p) = nbStationsOwned (heap g p)"
  "nbUtilitiesOwned (heap (transferMoneyFromTo a b x g) p) = nbUtilitiesOwned (heap g p)"
  by (auto simp: transferMoneyFromTo_def setMoney_def Let_def split: option.splits)

lemma transfer_fields [simp]:
  "board (transferMoneyFromTo a b x g) = board g"
  "currentPlayer (transferMoneyFromTo a b x g) = currentPlayer g"
  "players (transferMoneyFromTo a b x g) = players g"
  "input (transferMoneyFromTo a b x g) = input g"
  "chanceGOJFCTaken (transferMoneyFromTo a b x g) = chanceGOJFCTaken g"
  "communityChestGOJFCTaken (transferMoneyFromTo a b x g) = communityChestGOJFCTaken g"
  "getPosition q (transferMoneyFromTo a b x g) = getPosition q g"
  "getRemainingTurnsInJail q (transferMoneyFromTo a b x g) = getRemainingTurnsInJail q g"
  by (auto simp: transferMoneyFromTo_def setMoney_def getMoney_def getPosition_def
        getRemainingTurnsInJail_def Let_def split: option.splits)

lemma setPosition_fields [simp]:
  "board (setPosition p x g) = board g"
  "currentPlayer (setPosition p x g) = currentPlayer g"
  "players (setPosition p x g) = players g"
  "input (setPosition p x g) = input g"
  "getRemainingTurnsInJail q (setPosition p x g) = getRemainingTurnsInJail q g"
  by (simp_all add: setPosition_def getRemainingTurnsInJail_def)

lemmas concrete_game_defs =
  lapGame_def twoPlayers_def threePlayers_def createPlayer_def newGame_def addPlayer_def
  noInput_def Player_def

section \<open>Construction\<close>

text \<open>C9: a newly constructed player has 1500 money, stands on space 0, owns no station and
  no utility, is not in jail and holds neither get-out-of-jail-free token.\<close>

theorem new_player_defaults:
  "money (Player nm) = 1500 \<and> position (Player nm) = 0 \<and> nbStationsOwned (Player nm) = 0
   \<and> nbUtilitiesOwned (Player nm) = 0 \<and> remainingTurnsInJail (Player nm) = 0
   \<and> \<not> hasChanceGOJFC (Player nm) \<and> \<not> hasCommunityChestGOJFC (Player nm)
   \<and> name (Player nm) = nm"
  by (simp add: Player_def)

section \<open>Movement\<close>

text \<open>C2: on a board of length \<open>L\<close>, from a position in \<open>[0, L)\<close>, a move by \<open>d > 0\<close> puts
  the current player on \<open>(position + d) mod L\<close> and credits them 200 from the bank exactly
  when the new position is less than the old one and they have no turn left in jail; a
  move by \<open>d < 0\<close> credits nothing. The statement is about the state \<open>movePlayer\<close> hands to
  \<open>handleSpace\<close>, for a sum \<open>position + d\<close> that an \<open>int\<close> holds (the overflow of a signed
  addition is undefined in C++) and a board whose length an \<open>int\<close> holds. The balance
  stored is the \<open>int\<close> sum of the old balance and 200: the old balance plus 200 whenever an
  \<open>int\<close> holds it.\<close>

theorem movePlayer_position_and_bonus:
  assumes cur: "currentPlayer g = Some p"
    and L: "0 < length (board g)" "int (length (board g)) < 2 ^ 31"
    and pos: "0 \<le> getPosition p g" "getPosition p g < int (length (board g))"
  shows "(0 < d \<and> getPosition p g + d < 2 ^ 31 \<longrightarrow>
           (\<exists>g'. movePlayer_step d g = Inr (Some g') \<and> movePlayer handle d g = handle g'
              \<and> getPosition p g' = (getPosition p g + d) mod int (length (board g))
              \<and> getMoney p g' =
                   (if (getPosition p g + d) mod int (length (board g)) < getPosition p g
                       \<and> getRemainingTurnsInJail p g = 0
                    then to_int32 (getMoney p g + 200) else getMoney p g)
              \<and> (- (2 ^ 31) \<le> getMoney p g \<and> getMoney p g + 200 < 2 ^ 31 \<longrightarrow>
                   getMoney p g' = getMoney p g +
                     (if (getPosition p g + d) mod int (length (board g)) < getPosition p g
                         \<and> getRemainingTurnsInJail p g = 0 then 200 else 0))))
       \<and> (d < 0 \<longrightarrow>
           (\<exists>g'. movePlayer_step d g = Inr (Some g') \<and> movePlayer handle d g = handle g'
              \<and> getMoney p g' = getMoney p g))"
proof (intro conjI impI)
  assume d: "0 < d \<and> getPosition p g + d < 2 ^ 31"
  have np: "newPosition (getPosition p g) d (length (board g))
              = (getPosition p g + d) mod int (length (board g))"
    using d pos L by (intro newPosition_forward) simp_all
  have nb: "\<not> outOfBounds (newPosition (getPosition p g) d (length (board g))) (length (board g))"
    using L by (rule not_outOfBounds)
  have ob: "onBoard (getPosition p g) g"
    "onBoard (newPosition (getPosition p g) d (length (board g))) g"
    using pos newPosition_range [OF L] by (simp_all add: onBoard_def)
  show "\<exists>g'. movePlayer_step d g = Inr (Some g') \<and> movePlayer handle d g = handle g'
              \<and> getPosition p g' = (getPosition p g + d) mod int (length (board g))
              \<and> getMoney p g' =
                   (if (getPosition p g + d) mod int (length (board g)) < getPosition p g
                       \<and> getRemainingTurnsInJail p g = 0
                    then to_int32 (getMoney p g + 200) else getMoney p g)
              \<and> (- (2 ^ 31) \<le> getMoney p g \<and> getMoney p g + 200 < 2 ^ 31 \<longrightarrow>
                   getMoney p g' = getMoney p g +
                     (if (getPosition p g + d) mod int (length (board g)) < getPosition p g
                         \<and> getRemainingTurnsInJail p g = 0 then 200 else 0))"
    using nb ob d unfolding np
    by (simp add: movePlayer_def movePlayer_step_def cur np passedGo_def getMoney_credit_wraps
          to_int32_id Let_def)
next
  assume d: "d < 0"
  have nb: "\<not> outOfBounds (newPosition (getPosition p g) d (length (board g))) (length (board g))"
    using L by (rule not_outOfBounds)
  have ob: "onBoard (getPosition p g) g"
    "onBoard (newPosition (getPosition p g) d (length (board g))) g"
    using pos newPosition_range [OF L] by (simp_all add: onBoard_def)
  show "\<exists>g'. movePlayer_step d g = Inr (Some g') \<and> movePlayer handle d g = handle g'
              \<and> getMoney p g' = getMoney p g"
    using nb ob d by (simp add: movePlayer_def movePlayer_step_def cur passedGo_def Let_def)
qed

theorem movePlayer_position_and_bonus_witness:
  "(\<exists>g'. movePlayer_step 2 lapGame = Inr (Some g') \<and> movePlayer Inr 2 lapGame = Inr g'
       \<and> getPosition 0 g' = 1 \<and> getMoney 0 g' = 1700)
   \<and> (\<exists>g'. movePlayer_step (- 3) lapGame = Inr (Some g') \<and> movePlayer Inr (- 3) lapGame = Inr g'
       \<and> getMoney 0 g' = 1500)"
proof -
  have cur: "currentPlayer lapGame = Some 0"
    and L: "0 < length (board lapGame)" "int (length (board lapGame)) < 2 ^ 31"
    and pos: "0 \<le> getPosition 0 lapGame" "getPosition 0 lapGame < int (length (board lapGame))"
    by (simp_all add: concrete_game_defs setPosition_def getPosition_def)
  have vals: "getPosition 0 lapGame = 2" "getMoney 0 lapGame = 1500"
    "getRemainingTurnsInJail 0 lapGame = 0" "length (board lapGame) = 3"
    by (simp_all add: concrete_game_defs setPosition_def getPosition_def getMoney_def
          getRemainingTurnsInJail_def)
  show ?thesis
    using movePlayer_position_and_bonus [OF cur L pos, of 2 Inr]
      movePlayer_position_and_bonus [OF cur L pos, of "- 3" Inr]
    by (auto simp add: vals)
qed

text \<open>C3: whatever the delta, positive or negative, from a position in \<open>[0, boardLength)\<close>
  the new position \<open>movePlayer\<close> computes lies in \<open>[0, boardLength)\<close>, so the defensive
  out-of-bounds branch is never taken (for a board whose length an \<open>int\<close> holds).\<close>

theorem defensive_branch_unreachable:
  assumes cur: "currentPlayer g = Some p"
    and L: "0 < length (board g)" "int (length (board g)) < 2 ^ 31"
    and pos: "0 \<le> getPosition p g" "getPosition p g < int (length (board g))"
  shows "0 \<le> newPosition (getPosition p g) d (length (board g))
       \<and> newPosition (getPosition p g) d (length (board g)) < int (length (board g))
       \<and> \<not> outOfBounds (newPosition (getPosition p g) d (length (board g))) (length (board g))
       \<and> (\<exists>g'. movePlayer_step d g = Inr (Some g'))"
proof -
  have nb: "\<not> outOfBounds (newPosition (getPosition p g) d (length (board g))) (length (board g))"
    using L by (rule not_outOfBounds)
  have ob: "onBoard (getPosition p g) g"
    "onBoard (newPosition (getPosition p g) d (length (board g))) g"
    using pos newPosition_range [OF L] by (simp_all add: onBoard_def)
  have "\<exists>g'. movePlayer_step d g = Inr (Some g')"
    using nb ob by (simp add: movePlayer_step_def cur Let_def)
  then show ?thesis using nb newPosition_range [OF L] by simp
qed

theorem defensive_branch_unreachable_witness:
  "0 \<le> newPosition 2 (- 3) 3 \<and> newPosition 2 (- 3) 3 < 3 \<and> \<not> outOfBounds (newPosition 2 (- 3) 3) 3
   \<and> (\<exists>g'. movePlayer_step (- 3) lapGame = Inr (Some g'))"
proof -
  have cur: "currentPlayer lapGame = Some 0"
    and L: "0 < length (board lapGame)" "int (length (board lapGame)) < 2 ^ 31"
    and pos: "0 \<le> getPosition 0 lapGame" "getPosition 0 lapGame < int (length (board lapGame))"
    by (simp_all add: concrete_game_defs setPosition_def getPosition_def)
  have vals: "getPosition 0 lapGame = 2" "length (board lapGame) = 3"
    by (simp_all add: concrete_game_defs setPosition_def getPosition_def)
  show ?thesis
    using defensive_branch_unreachable [OF cur L pos, of "- 3"] by (simp add: vals)
qed

text \<open>The remainder is taken on the unsigned conversion of the sum, not on the sum: three
  spaces back from space 1 of a board of 40 is space 14.\<close>

lemma move_back_across_go: "newPosition 1 (- 3) 40 = 14"
  by (simp add: newPosition_def to_int32_def to_size_t_def)

text \<open>C8: a player who is not in jail, stands on a position \<open>p\<close> with \<open>0 < p < L\<close> and moves
  by \<open>d > 0\<close> with \<open>(p + d) mod L = 0\<close> lands on the Go space of index 0 and is credited 400
  in all: 200 for passing Go in \<open>movePlayer\<close> and 200 by the action of the Go space. The
  balance stored is the \<open>int\<close> sum of the old balance, 200 and 200: the old balance plus 400
  whenever an \<open>int\<close> holds it.\<close>

theorem land_on_go_400:
  assumes cur: "currentPlayer g = Some p"
    and L: "0 < length (board g)" "int (length (board g)) < 2 ^ 31"
    and go: "board g ! 0 = Go"
    and pos: "0 < getPosition p g" "getPosition p g < int (length (board g))"
    and jail: "getRemainingTurnsInJail p g = 0"
    and d: "0 < d" "getPosition p g + d < 2 ^ 31"
    and wrap: "(getPosition p g + d) mod int (length (board g)) = 0"
  shows "\<exists>g'. movePlayer (handleSpace (Suc n)) d g = Inr g'
            \<and> getPosition p g' = 0
            \<and> getMoney p g' = to_int32 (to_int32 (getMoney p g + 200) + 200)
            \<and> (- (2 ^ 31) \<le> getMoney p g \<and> getMoney p g + 400 < 2 ^ 31 \<longrightarrow>
                 getMoney p g' = getMoney p g + 400)"
proof -
  have np: "newPosition (getPosition p g) d (length (board g)) = 0"
    using d pos L wrap by (simp add: newPosition_forward)
  have nb: "\<not> outOfBounds 0 (length (board g))"
    using not_outOfBounds [OF L, of "getPosition p g" d] by (simp add: np)
  have ob: "onBoard (getPosition p g) g" "onBoard 0 g"
    using pos L by (simp_all add: onBoard_def)
  let ?g1 = "setPosition p 0 (transferMoneyFromTo None (Some p) 200 g)"
  have step: "movePlayer_step d g = Inr (Some ?g1)"
    using nb ob d pos jail by (simp add: movePlayer_step_def cur np passedGo_def Let_def)
  have land: "handleSpace (Suc n) ?g1 = Inr (transferMoneyFromTo None (Some p) 200 ?g1)"
    using L go by (simp add: cur space_action_def Go_action_def onBoard_def)
  show ?thesis
    by (simp add: movePlayer_def step land getMoney_credit_wraps to_int32_id
          del: handleSpace.simps)
qed

theorem land_on_go_400_witness:
  "\<exists>g'. movePlayer (handleSpace 1) 1 lapGame = Inr g'
      \<and> getPosition 0 g' = 0 \<and> getMoney 0 g' = 1900"
proof -
  have cur: "currentPlayer lapGame = Some 0"
    and L: "0 < length (board lapGame)" "int (length (board lapGame)) < 2 ^ 31"
    and go: "board lapGame ! 0 = Go"
    and pos: "0 < getPosition 0 lapGame" "getPosition 0 lapGame < int (length (board lapGame))"
    and jail: "getRemainingTurnsInJail 0 lapGame = 0"
    and d: "0 < (1::int)" "getPosition 0 lapGame + 1 < 2 ^ 31"
    and wrap: "(getPosition 0 lapGame + 1) mod int (length (board lapGame)) = 0"
    by (simp_all add: concrete_game_defs setPosition_def getPosition_def
          getRemainingTurnsInJail_def)
  have vals: "getMoney 0 lapGame = 1500"
    by (simp add: concrete_game_defs setPosition_def getMoney_def)
  show ?thesis
    using land_on_go_400 [OF cur L go pos jail d wrap, of 0] by (auto simp add: vals)
qed

section \<open>Money\<close>

text \<open>C6: for a player \<open>p\<close> with money \<open>m \<ge> 0\<close> and an amount \<open>a > m\<close> (an \<open>int\<close>), the
  transfer from \<open>p\<close> to the bank or to a player \<open>q\<close> returns (the function is total: it
  yields a state and raises nothing) and leaves \<open>p\<close> with exactly 0; the balance of \<open>q\<close>
  becomes the \<open>int\<close> sum of its old value and \<open>a\<close>, which is the old value plus the full \<open>a\<close>
  whenever an \<open>int\<close> holds it; a transfer of \<open>x\<close> from the bank credits the recipient \<open>x\<close> in
  the same way. The recipient \<open>q\<close> is not the sender, as at every call of the program that
  passes two players: the rent of a space goes to an owner who is not the player landing
  on it, the birthday card collects from the players other than the current one.\<close>

theorem transfer_overdraw_clamps:
  assumes "0 \<le> getMoney p g" and "getMoney p g < a" and "a < 2 ^ 31"
  shows "getMoney p (transferMoneyFromTo (Some p) None a g) = 0
       \<and> (q \<noteq> p \<longrightarrow>
            getMoney p (transferMoneyFromTo (Some p) (Some q) a g) = 0
          \<and> getMoney q (transferMoneyFromTo (Some p) (Some q) a g) = to_int32 (getMoney q g + a)
          \<and> (- (2 ^ 31) \<le> getMoney q g \<and> getMoney q g + a < 2 ^ 31 \<longrightarrow>
                getMoney q (transferMoneyFromTo (Some p) (Some q) a g) = getMoney q g + a))
       \<and> getMoney q (transferMoneyFromTo None (Some q) x g) = to_int32 (getMoney q g + x)
       \<and> (- (2 ^ 31) \<le> getMoney q g + x \<and> getMoney q g + x < 2 ^ 31 \<longrightarrow>
            getMoney q (transferMoneyFromTo None (Some q) x g) = getMoney q g + x)"
proof -
  have debit: "to_int32 (getMoney p g - a) = getMoney p g - a"
    using assms by (intro to_int32_id) linarith+
  have neg: "getMoney p g - a < 0" using assms by simp
  have bank: "getMoney p (transferMoneyFromTo (Some p) None a g) = 0"
    using neg debit by (simp add: transferMoneyFromTo_def getMoney_def setMoney_def Let_def)
  have other: "q \<noteq> p \<longrightarrow>
            getMoney p (transferMoneyFromTo (Some p) (Some q) a g) = 0
          \<and> getMoney q (transferMoneyFromTo (Some p) (Some q) a g) = to_int32 (getMoney q g + a)"
    using neg debit by (simp add: transferMoneyFromTo_def getMoney_def setMoney_def Let_def)
  have full: "- (2 ^ 31) \<le> getMoney q g \<and> getMoney q g + a < 2 ^ 31
                \<longrightarrow> to_int32 (getMoney q g + a) = getMoney q g + a"
    using assms by (simp add: to_int32_id)
  show ?thesis using bank other full by (simp add: getMoney_credit_wraps to_int32_id)
qed

theorem transfer_overdraw_clamps_witness:
  "getMoney 0 (transferMoneyFromTo (Some 0) None 2000 lapGame) = 0
   \<and> getMoney 0 (transferMoneyFromTo (Some 0) (Some 1) 2000 lapGame) = 0
   \<and> getMoney 1 (transferMoneyFromTo (Some 0) (Some 1) 2000 lapGame) = 3500
   \<and> getMoney 1 (transferMoneyFromTo None (Some 1) 250 lapGame) = 1750"
proof -
  have m: "0 \<le> getMoney 0 lapGame" "getMoney 0 lapGame < 2000" "(2000::int) < 2 ^ 31"
    by (simp_all add: concrete_game_defs setPosition_def getMoney_def)
  have vals: "getMoney (Suc 0) lapGame = 1500"
    by (simp add: concrete_game_defs setPosition_def getMoney_def)
  show ?thesis using transfer_overdraw_clamps [OF m, of 1 250] by (simp add: vals)
qed

text \<open>Outside these hypotheses. A transfer from a player to themselves, which no call of the
  program makes, debits the player to 0 and then credits them the whole amount. A credit
  that an \<open>int\<close> does not hold wraps around: 1500 and 2147483647 leave -2147482149. A
  player who lands on a space of their own pays nothing.\<close>

lemma transfer_to_self:
  "getMoney 0 (transferMoneyFromTo (Some 0) (Some 0) 2000 lapGame) = 2000"
  by (simp add: concrete_game_defs setPosition_def getMoney_def transferMoneyFromTo_def
        setMoney_def to_int32_def)

lemma transfer_credit_wraps:
  "getMoney 1 (transferMoneyFromTo (Some 0) (Some 1) 2147483647 lapGame) = - 2147482149"
  by (simp add: concrete_game_defs setPosition_def getMoney_def transferMoneyFromTo_def
        setMoney_def to_int32_def)

lemma own_space_no_rent:
  "currentPlayer g = Some p \<Longrightarrow> getOwner sp = Some p \<Longrightarrow> Buyable_action fuel i sp g = Inr g"
  by (simp add: Buyable_action_def)

section \<open>Jail\<close>

text \<open>C10: when a jailed player (remaining turns above 0) who holds a token accepts to use
  it, the remaining turns become 0; if the player holds the Chance token (alone or with the
  other one) it is the one consumed, the player's chance flag and the chance deck's taken
  flag are cleared and the community-chest token is untouched; the community-chest token
  is consumed only when the player does not hold the Chance token.\<close>

theorem jail_card_priority:
  assumes cur: "currentPlayer g = Some p"
    and jail: "0 < getRemainingTurnsInJail p g"
    and holds: "hasChanceGOJFC (heap g p) \<or> hasCommunityChestGOJFC (heap g p)"
    and accept: "yesno (input g) = True # rest"
  shows "\<exists>g'. Jail_action g = Inr g' \<and> getRemainingTurnsInJail p g' = 0
     \<and> (if hasChanceGOJFC (heap g p)
         then \<not> hasChanceGOJFC (heap g' p) \<and> \<not> chanceGOJFCTaken g'
              \<and> hasCommunityChestGOJFC (heap g' p) = hasCommunityChestGOJFC (heap g p)
              \<and> communityChestGOJFCTaken g' = communityChestGOJFCTaken g
         else \<not> hasCommunityChestGOJFC (heap g' p) \<and> \<not> communityChestGOJFCTaken g'
              \<and> \<not> hasChanceGOJFC (heap g' p)
              \<and> chanceGOJFCTaken g' = chanceGOJFCTaken g)"
  using assms
  by (auto simp: Jail_action_def getYesNo_def useGOJFC_def getRemainingTurnsInJail_def
        setRemainingTurnsInJail_def setHasChanceGOJFC_def setHasCommunityChestGOJFC_def Let_def)

theorem jail_card_priority_witness:
  "\<exists>g'. Jail_action tokenGame = Inr g' \<and> getRemainingTurnsInJail 0 g' = 0
      \<and> \<not> hasChanceGOJFC (heap g' 0) \<and> \<not> chanceGOJFCTaken g'
      \<and> hasCommunityChestGOJFC (heap g' 0) \<and> communityChestGOJFCTaken g'"
proof -
  have cur: "currentPlayer tokenGame = Some 0"
    and jail: "0 < getRemainingTurnsInJail 0 tokenGame"
    and holds: "hasChanceGOJFC (heap tokenGame 0) \<or> hasCommunityChestGOJFC (heap tokenGame 0)"
    and accept: "yesno (input tokenGame) = True # []"
    by (simp_all add: tokenGame_def concrete_game_defs getRemainingTurnsInJail_def
          setRemainingTurnsInJail_def setHasChanceGOJFC_def setHasCommunityChestGOJFC_def)
  have vals: "hasChanceGOJFC (heap tokenGame 0)" "hasCommunityChestGOJFC (heap tokenGame 0)"
    "communityChestGOJFCTaken tokenGame"
    by (simp_all add: tokenGame_def concrete_game_defs
          setRemainingTurnsInJail_def setHasChanceGOJFC_def setHasCommunityChestGOJFC_def)
  show ?thesis using jail_card_priority [OF cur jail holds accept] by (simp add: vals)
qed

section \<open>The decks\<close>

text \<open>The chance deck does what the comment in both draw functions says: with the chance
  token held, a top card that reads \<open>Get Out of Jail Free\<close> is drawn again.\<close>

lemma drawChanceCard_redraws:
  assumes "chanceDeck g \<noteq> []" "chanceGOJFCTaken g"
    and "shuffle (chanceDeck g) (input g) = Inr (deck, s)"
    and "str_find ''Get Out of Jail Free'' (description (hd deck))"
  shows "drawChanceCard (Suc n) handle g
           = drawChanceCard n handle (g\<lparr>chanceDeck := deck, input := s\<rparr>)"
  using assms by (simp add: Let_def)

text \<open>C1 (the code departs from it): with the community-chest token held by Bob and the
  chance token free, a draw from the community-chest deck whose top card is the
  get-out-of-jail-free card does not draw again: the card's effect runs and Alice holds
  the token as well. \<open>drawCommunityChestCard\<close> tests \<open>chanceGOJFCTaken\<close>. With the
  description the decks of main.cc give the card (\<open>Get out of Jail Free\<close>, a small \<open>o\<close>) the
  test fails in both draw functions whatever the flags.\<close>

theorem community_chest_token_drawn_twice:
  "(case drawCommunityChestCard 1 (handleSpace 0) (heldByBob ''Get Out of Jail Free'') of
      Inr g' \<Rightarrow> hasCommunityChestGOJFC (heap g' 0) \<and> hasCommunityChestGOJFC (heap g' 1)
    | Inl e \<Rightarrow> False)
   \<and> (case drawCommunityChestCard 1 (handleSpace 0)
             (bothHeld ''Get out of Jail Free. This card may be kept until needed'') of
      Inr g' \<Rightarrow> hasCommunityChestGOJFC (heap g' 0) \<and> hasCommunityChestGOJFC (heap g' 1)
    | Inl e \<Rightarrow> False)
   \<and> (case drawChanceCard 1 (handleSpace 0)
             (bothHeld ''Get out of Jail Free. This card may be kept until needed'') of
      Inr g' \<Rightarrow> hasChanceGOJFC (heap g' 0) \<and> hasChanceGOJFC (heap g' 1)
    | Inl e \<Rightarrow> False)"
  by code_simp

section \<open>Bankruptcy\<close>

text \<open>C5 (the code departs from it): Alice draws the birthday card, Bob and Charlie are
  both left with exactly 0. The check at the end of the turn removes Bob and, its index
  moving on over the shortened list, never looks at Charlie: after \<open>playTurn\<close> Charlie is
  still an active player with 0 money and still owns the station.\<close>

theorem bankrupt_neighbour_survives:
  "(case playTurn 5 birthdayGame of
      Inr g' \<Rightarrow> players g' = [0, 2] \<and> getMoney 2 g' = 0 \<and> getMoney 1 g' = 0
               \<and> getOwner (board g' ! 2) = Some 2
    | Inl e \<Rightarrow> False)"
  by code_simp

text \<open>The branch of a jailed player returns before the check: Alice pays the fine with her
  last 50 and stays in the list with 0.\<close>

lemma jail_turn_skips_check:
  "(case playTurn 5 jailedGame of
      Inr g' \<Rightarrow> players g' = [0, 1] \<and> getMoney 0 g' = 0 | Inl e \<Rightarrow> False)"
  by code_simp

section \<open>Building\<close>


lemma askBuildings_three:
  assumes d: "distinct [i, j, k]"
    and r1: "getNumber 0 (min (5 - getNbBuildings (b ! i)) cap) s = Inr (a1, s1)"
    and r2: "getNumber 0 (min (5 - getNbBuildings (b ! j)) cap) s1 = Inr (a2, s2)"
    and r3: "getNumber 0 (min (5 - getNbBuildings (b ! k)) cap) s2 = Inr (a3, s3)"
  shows "askBuildings b cap [i, j, k] [] mn mx 0 s =
     Inr ([(i, getNbBuildings (b ! i) + a1), (j, getNbBuildings (b ! j) + a2),
           (k, getNbBuildings (b ! k) + a3)],
          min (min (min mn (getNbBuildings (b ! i) + a1)) (getNbBuildings (b ! j) + a2))
              (getNbBuildings (b ! k) + a3),
          max (max (max mx (getNbBuildings (b ! i) + a1)) (getNbBuildings (b ! j) + a2))
              (getNbBuildings (b ! k) + a3),
          a1 + a2 + a3, s3)"
  using d by (simp add: r1 r2 r3 Let_def)

lemma setBuildingsAt_fields [simp]:
  "getMoney p (setBuildingsAt i lvl g) = getMoney p g"
  "length (board (setBuildingsAt i lvl g)) = length (board g)"
  "input (setBuildingsAt i lvl g) = input g"
  by (simp_all add: setBuildingsAt_def getMoney_def)

lemma getNbBuildings_setBuildingsAt:
  "i < length (board g) \<Longrightarrow> isProperty (board g ! i) \<Longrightarrow>
   getNbBuildings (board (setBuildingsAt j lvl g) ! i)
     = (if i = j then lvl else getNbBuildings (board g ! i))"
  by (cases "board g ! i") (auto simp: setBuildingsAt_def)

lemma isProperty_setBuildingsAt [simp]:
  "i < length (board g) \<Longrightarrow> isProperty (board (setBuildingsAt j lvl g) ! i) = isProperty (board g ! i)"
  by (cases "i = j"; cases "board g ! i") (auto simp: setBuildingsAt_def)

lemma getMoney_input [simp]: "getMoney p (g\<lparr>input := s\<rparr>) = getMoney p g"
  by (simp add: getMoney_def)


text \<open>C4, as amended: in \<open>buildOnProperties\<close> over a group of three properties, a request
  whose resulting levels are [2,2,4] is rejected (the call is the retry, with one more
  attempt, on the input that remains), and a request whose resulting levels are [2,2,3]
  or [2,3,3] is accepted when the player can afford it: the levels are committed and the
  player is debited once for the total (the balance stored is the \<open>int\<close> difference, which is
  the old balance minus the total whenever an \<open>int\<close> holds it). The three prompts return
  \<open>a1\<close>, \<open>a2\<close>, \<open>a3\<close>.\<close>

theorem build_spread_rule:
  assumes att: "attempts \<le> 50"
    and hp: "getHousePrice (board g ! i) \<noteq> 0"
    and d: "distinct [i, j, k]"
    and inb: "i < length (board g)" "j < length (board g)" "k < length (board g)"
    and isp: "isProperty (board g ! i)" "isProperty (board g ! j)" "isProperty (board g ! k)"
    and r1: "getNumber 0 (min (5 - getNbBuildings (board g ! i))
                (getMoney p g sdiv getHousePrice (board g ! i))) (input g) = Inr (a1, s1)"
    and r2: "getNumber 0 (min (5 - getNbBuildings (board g ! j))
                (getMoney p g sdiv getHousePrice (board g ! i))) s1 = Inr (a2, s2)"
    and r3: "getNumber 0 (min (5 - getNbBuildings (board g ! k))
                (getMoney p g sdiv getHousePrice (board g ! i))) s2 = Inr (a3, s3)"
    and t1: "getNbBuildings (board g ! i) + a1 = 2"
  shows "(getNbBuildings (board g ! j) + a2 = 2 \<and> getNbBuildings (board g ! k) + a3 = 4 \<longrightarrow>
            buildOnProperties [i, j, k] p attempts g
              = buildOnProperties [i, j, k] p (attempts + 1) (g\<lparr>input := s3\<rparr>))
       \<and> ((getNbBuildings (board g ! j) + a2 = 2 \<or> getNbBuildings (board g ! j) + a2 = 3)
            \<and> getNbBuildings (board g ! k) + a3 = 3
            \<and> (a1 + a2 + a3) * getHousePrice (board g ! i) \<le> getMoney p g \<longrightarrow>
            (\<exists>g'. buildOnProperties [i, j, k] p attempts g = Inr g'
               \<and> getNbBuildings (board g' ! i) = 2
               \<and> getNbBuildings (board g' ! j) = getNbBuildings (board g ! j) + a2
               \<and> getNbBuildings (board g' ! k) = 3
               \<and> getMoney p g' = max 0 (to_int32
                    (getMoney p g - (a1 + a2 + a3) * getHousePrice (board g ! i)))
               \<and> (getMoney p g - (a1 + a2 + a3) * getHousePrice (board g ! i) < 2 ^ 31 \<longrightarrow>
                    getMoney p g' = getMoney p g - (a1 + a2 + a3) * getHousePrice (board g ! i))
               \<and> input g' = s3))"
proof -
  note ask = askBuildings_three [OF d r1 r2 r3, of INT_MAX INT_MIN]
  have unfold: "buildOnProperties [i, j, k] p attempts g =
      (case askBuildings (board g) (getMoney p g sdiv getHousePrice (board g ! i)) [i, j, k] []
                   INT_MAX INT_MIN 0 (input g) of
              Inl e \<Rightarrow> Inl e
            | Inr (buildingsPerProperty, minBuildings, maxBuildings, totalNewBuildings, s) \<Rightarrow>
                if maxBuildings - minBuildings > 1
                then buildOnProperties [i, j, k] p (attempts + 1) (g\<lparr>input := s\<rparr>)
                else if totalNewBuildings * getHousePrice (board g ! i) > getMoney p g
                then Inr (g\<lparr>input := s\<rparr>)
                else Inr (fold (\<lambda>kv. setBuildingsAt (fst kv) (snd kv)) buildingsPerProperty
                            (transferMoneyFromTo (Some p) None
                               (totalNewBuildings * getHousePrice (board g ! i)) (g\<lparr>input := s\<rparr>))))"
    using att hp by (subst buildOnProperties.simps) (simp add: Let_def)
  show ?thesis
  proof (intro conjI impI)
    assume "getNbBuildings (board g ! j) + a2 = 2 \<and> getNbBuildings (board g ! k) + a3 = 4"
    then show "buildOnProperties [i, j, k] p attempts g
              = buildOnProperties [i, j, k] p (attempts + 1) (g\<lparr>input := s3\<rparr>)"
      using t1 unfolding unfold ask by (simp add: INT_MAX_def INT_MIN_def)
  next
    assume a: "(getNbBuildings (board g ! j) + a2 = 2 \<or> getNbBuildings (board g ! j) + a2 = 3)
            \<and> getNbBuildings (board g ! k) + a3 = 3
            \<and> (a1 + a2 + a3) * getHousePrice (board g ! i) \<le> getMoney p g"
    let ?G = "transferMoneyFromTo (Some p) None ((a1 + a2 + a3) * getHousePrice (board g ! i))
                (g\<lparr>input := s3\<rparr>)"
    let ?g' = "setBuildingsAt k 3 (setBuildingsAt j (getNbBuildings (board g ! j) + a2)
                 (setBuildingsAt i 2 ?G))"
    have res: "buildOnProperties [i, j, k] p attempts g = Inr ?g'"
      using a t1 unfolding unfold ask by (auto simp: INT_MAX_def INT_MIN_def)
    have lv: "getNbBuildings (board ?g' ! i) = 2"
      "getNbBuildings (board ?g' ! j) = getNbBuildings (board g ! j) + a2"
      "getNbBuildings (board ?g' ! k) = 3"
      using d inb isp by (simp_all add: getNbBuildings_setBuildingsAt)
    have mo: "getMoney p g - (a1 + a2 + a3) * getHousePrice (board g ! i) < 2 ^ 31 \<longrightarrow>
        getMoney p ?g' = getMoney p g - (a1 + a2 + a3) * getHousePrice (board g ! i)"
      using a by (simp add: getMoney_debit)
    have mx: "getMoney p ?g' = max 0 (to_int32
                (getMoney p g - (a1 + a2 + a3) * getHousePrice (board g ! i)))"
      by (simp add: getMoney_debit_wraps)
    show "\<exists>g'. buildOnProperties [i, j, k] p attempts g = Inr g'
               \<and> getNbBuildings (board g' ! i) = 2
               \<and> getNbBuildings (board g' ! j) = getNbBuildings (board g ! j) + a2
               \<and> getNbBuildings (board g' ! k) = 3
               \<and> getMoney p g' = max 0 (to_int32
                    (getMoney p g - (a1 + a2 + a3) * getHousePrice (board g ! i)))
               \<and> (getMoney p g - (a1 + a2 + a3) * getHousePrice (board g ! i) < 2 ^ 31 \<longrightarrow>
                    getMoney p g' = getMoney p g - (a1 + a2 + a3) * getHousePrice (board g ! i))
               \<and> input g' = s3"
      using res lv mo mx by simp
  qed
qed


lemma build_facts:
  "getMoney 0 (buildGame a b c) = 1500"
  "board (buildGame a b c) = pinkGroup"
  "input (buildGame a b c) = noInput\<lparr>numbers := [\<lambda>lo hi. a, \<lambda>lo hi. b, \<lambda>lo hi. c]\<rparr>"
  by (simp_all add: buildGame_def concrete_game_defs getMoney_def)

lemma pink_facts:
  "length pinkGroup = 4"
  "getHousePrice (pinkGroup ! Suc 0) = 100"
  "getNbBuildings (pinkGroup ! Suc 0) = 0" "getNbBuildings (pinkGroup ! 2) = 0"
  "getNbBuildings (pinkGroup ! 3) = 0"
  "isProperty (pinkGroup ! Suc 0)" "isProperty (pinkGroup ! 2)" "isProperty (pinkGroup ! 3)"
  by (simp_all add: pinkGroup_def FULL_GROUP_def)

lemma cap: "(1500::int) sdiv 100 = 15"
  by (simp add: signed_divide_int_def)

theorem build_spread_rule_witness:
  "buildOnProperties [1, 2, 3] 0 0 (buildGame 2 2 4)
     = buildOnProperties [1, 2, 3] 0 1 ((buildGame 2 2 4)\<lparr>input := noInput\<rparr>)
   \<and> (\<exists>g'. buildOnProperties [1, 2, 3] 0 0 (buildGame 2 3 3) = Inr g'
         \<and> getNbBuildings (board g' ! 1) = 2 \<and> getNbBuildings (board g' ! 2) = 3
         \<and> getNbBuildings (board g' ! 3) = 3 \<and> getMoney 0 g' = 700)"
proof -
  note A = build_spread_rule [where g = "buildGame 2 2 4" and p = 0 and attempts = 0
      and i = 1 and j = 2 and k = 3 and ?a1.0 = 2 and ?a2.0 = 2 and ?a3.0 = 4
      and ?s1.0 = "noInput\<lparr>numbers := [\<lambda>lo hi. 2, \<lambda>lo hi. 4]\<rparr>"
      and ?s2.0 = "noInput\<lparr>numbers := [\<lambda>lo hi. 4]\<rparr>" and ?s3.0 = noInput]
  note B = build_spread_rule [where g = "buildGame 2 3 3" and p = 0 and attempts = 0
      and i = 1 and j = 2 and k = 3 and ?a1.0 = 2 and ?a2.0 = 3 and ?a3.0 = 3
      and ?s1.0 = "noInput\<lparr>numbers := [\<lambda>lo hi. 3, \<lambda>lo hi. 3]\<rparr>"
      and ?s2.0 = "noInput\<lparr>numbers := [\<lambda>lo hi. 3]\<rparr>" and ?s3.0 = noInput]
  show ?thesis using A B
    by (auto simp add: build_facts pink_facts cap getNumber_def noInput_def)
qed


text \<open>C4 as stated fails on the levels [2,2,3]: they differ by one step, which the
  test \<open>maxBuildings - minBuildings > 1\<close> allows. The request is committed, the player pays
  for seven houses, and no second round of prompts is made.\<close>

theorem build_2_2_3_counterexample:
  "(case buildOnProperties [1, 2, 3] 0 0 (buildGame 2 2 3) of
      Inr g' \<Rightarrow> map getNbBuildings (board g') = [0, 2, 2, 3] \<and> getMoney 0 g' = 800
               \<and> numbers (input g') = []
    | Inl e \<Rightarrow> False)"
  by code_simp


section \<open>The auction\<close>

text \<open>\<open>getNumber\<close> returns a number within its bounds, whatever the replies: the replies
  outside the bounds are read and dropped. A reply that fits every prompt is accepted when
  it is reached, so a call uses up at most one of them.\<close>

lemma getNumber_loop_range:
  "getNumber_loop lo hi fs = Some (x, r) \<Longrightarrow> lo \<le> x \<and> x \<le> hi"
  by (induction fs) (auto simp: Let_def split: if_splits)

lemma getNumber_range: "getNumber lo hi s = Inr (x, s') \<Longrightarrow> lo \<le> x \<and> x \<le> hi"
  by (auto simp: getNumber_def dest: getNumber_loop_range split: option.splits)

lemma inBoundsD: "inBounds f \<Longrightarrow> lo \<le> hi \<Longrightarrow> lo \<le> f lo hi \<and> f lo hi \<le> hi"
  unfolding inBounds_def by blast

lemma getNumber_loop_none:
  "getNumber_loop lo hi fs = None \<Longrightarrow> lo \<le> hi \<Longrightarrow> filter inBounds fs = []"
proof (induction fs)
  case Nil
  then show ?case by simp
next
  case (Cons f fs)
  have out: "f lo hi < lo \<or> f lo hi > hi"
    using Cons.prems(1) by (simp add: Let_def split: if_splits)
  then have nf: "\<not> inBounds f" using inBoundsD [of f lo hi] Cons.prems(2) by auto
  have "getNumber_loop lo hi fs = None" using Cons.prems(1) out by (simp add: Let_def)
  then show ?case using Cons.IH Cons.prems(2) nf by simp
qed

lemma getNumber_loop_some:
  "getNumber_loop lo hi fs = Some (x, r) \<Longrightarrow> lo \<le> hi
     \<Longrightarrow> length (filter inBounds fs) \<le> Suc (length (filter inBounds r))"
proof (induction fs)
  case Nil
  then show ?case by simp
next
  case (Cons f fs)
  show ?case
  proof (cases "f lo hi < lo \<or> f lo hi > hi")
    case True
    then have nf: "\<not> inBounds f" using inBoundsD [of f lo hi] Cons.prems(2) by auto
    have "getNumber_loop lo hi fs = Some (x, r)" using Cons.prems(1) True by (simp add: Let_def)
    then show ?thesis using Cons.IH Cons.prems(2) nf by simp
  next
    case False
    then have "r = fs" using Cons.prems(1) by (simp add: Let_def)
    then show ?thesis by simp
  qed
qed

lemma getNumber_cases:
  assumes "lo \<le> hi"
  shows "(getNumber lo hi s = Inl InputExhausted \<and> filter inBounds (numbers s) = [])
       \<or> (\<exists>x r. getNumber lo hi s = Inr (x, s\<lparr>numbers := r\<rparr>) \<and> lo \<le> x \<and> x \<le> hi
             \<and> length (filter inBounds (numbers s)) \<le> Suc (length (filter inBounds r)))"
proof (cases "getNumber_loop lo hi (numbers s)")
  case None
  then show ?thesis using getNumber_loop_none [OF None assms] by (simp add: getNumber_def)
next
  case (Some xr)
  obtain x r where xr: "xr = (x, r)" by (cases xr)
  have l: "getNumber_loop lo hi (numbers s) = Some (x, r)" using Some xr by simp
  have "getNumber lo hi s = Inr (x, s\<lparr>numbers := r\<rparr>)" by (simp add: getNumber_def l)
  then show ?thesis using getNumber_loop_range [OF l] getNumber_loop_some [OF l assms] by blast
qed

text \<open>The three ways one iteration goes, and the end of the loop: a candidate who cannot
  outbid is dropped, one who passes is dropped, one who bids goes to the back of the queue
  with a bid above the high bid and at most their money minus 1; a queue of one candidate
  is returned as it is.\<close>

lemma auction_step_cannot_bid:
  "rest \<noteq> [] \<Longrightarrow> getMoney c g - 1 \<le> bid
     \<Longrightarrow> auction_loop (Suc n) (c # rest) bid g = auction_loop n rest bid g"
  by (simp add: Let_def)

lemma auction_step_pass:
  "rest \<noteq> [] \<Longrightarrow> bid < getMoney c g - 1 \<Longrightarrow> yesno (input g) = False # ys
     \<Longrightarrow> auction_loop (Suc n) (c # rest) bid g
           = auction_loop n rest bid (g\<lparr>input := (input g)\<lparr>yesno := ys\<rparr>\<rparr>)"
  by (simp add: Let_def getYesNo_def)

lemma auction_step_bid:
  "rest \<noteq> [] \<Longrightarrow> bid < getMoney c g - 1 \<Longrightarrow> yesno (input g) = True # ys
     \<Longrightarrow> (case getNumber (bid + 1) (getMoney c g - 1) ((input g)\<lparr>yesno := ys\<rparr>) of
            Inl e \<Rightarrow> auction_loop (Suc n) (c # rest) bid g = Inl e
          | Inr (b, s') \<Rightarrow>
              bid < b \<and> b \<le> getMoney c g - 1
              \<and> auction_loop (Suc n) (c # rest) bid g
                  = auction_loop n (rest @ [c]) b (g\<lparr>input := s'\<rparr>))"
  by (auto simp: Let_def getYesNo_def split: sum.splits dest: getNumber_range)

lemma auction_step_no_reply:
  "rest \<noteq> [] \<Longrightarrow> bid < getMoney c g - 1 \<Longrightarrow> yesno (input g) = []
     \<Longrightarrow> auction_loop (Suc n) (c # rest) bid g = Inl InputExhausted"
  by (simp add: Let_def getYesNo_def)

lemma auction_loop_one: "auction_loop n [w] bid g = Inr ([w], bid, g)"
  by (cases n) simp_all

text \<open>Every auction, whatever the replies. \<open>M\<close> bounds the money of the candidates. An
  iteration drops a candidate or raises the high bid, so the loop makes at most
  \<open>length q + (M - 1 - bid)\<close> iterations: with that much fuel it returns one candidate, or
  the script of replies has run out (the program waits for a reply), which a script with
  that many replies of each kind cannot do. The candidate returned is the last of the
  queue if the high bid has not moved, and otherwise has bid it.\<close>

lemma auction_loop_result:
  assumes "q \<noteq> []"
    and "\<forall>p\<in>set q. getMoney p g \<le> M"
    and "length q + nat (M - 1 - bid) \<le> n"
  shows "(\<exists>w b s'. auction_loop n q bid g = Inr ([w], b, g\<lparr>input := s'\<rparr>) \<and> w \<in> set q
            \<and> (b = bid \<and> w = last q \<or> bid < b \<and> b \<le> getMoney w g - 1))
       \<or> (auction_loop n q bid g = Inl InputExhausted
            \<and> (length (yesno (input g)) < length q + nat (M - 1 - bid)
               \<or> length (filter inBounds (numbers (input g))) < length q + nat (M - 1 - bid)))"
  using assms
proof (induction n arbitrary: q bid g)
  case 0
  then show ?case by simp
next
  case (Suc n)
  show ?case
  proof (cases "length q > 1")
    case False
    with Suc.prems(1) obtain w where q: "q = [w]" by (cases q) auto
    have "auction_loop (Suc n) q bid g = Inr ([w], bid, g\<lparr>input := input g\<rparr>)"
      using q by simp
    then show ?thesis using q
      by (intro disjI1 exI [of _ w] exI [of _ bid] exI [of _ "input g"]) auto
  next
    case True
    then obtain c rest where q: "q = c # rest" and rest: "rest \<noteq> []"
      by (cases q) auto
    have lastq: "last q = last rest" using q rest by simp
    have lq: "length q = Suc (length rest)" using q by simp
    show ?thesis
    proof (cases "getMoney c g - 1 \<le> bid")
      case True
      have step: "auction_loop (Suc n) q bid g = auction_loop n rest bid g"
        unfolding q using rest True by (rule auction_step_cannot_bid)
      have m: "\<forall>p\<in>set rest. getMoney p g \<le> M" using Suc.prems(2) q by simp
      have f: "length rest + nat (M - 1 - bid) \<le> n" using Suc.prems(3) lq by linarith
      note IH = Suc.IH [OF rest m f]
      show ?thesis
      proof (rule disjE [OF IH])
        assume "\<exists>w b s'. auction_loop n rest bid g = Inr ([w], b, g\<lparr>input := s'\<rparr>)
                  \<and> w \<in> set rest
                  \<and> (b = bid \<and> w = last rest \<or> bid < b \<and> b \<le> getMoney w g - 1)"
        then obtain w b s' where r: "auction_loop n rest bid g = Inr ([w], b, g\<lparr>input := s'\<rparr>)"
          and w: "w \<in> set rest"
          and pay: "b = bid \<and> w = last rest \<or> bid < b \<and> b \<le> getMoney w g - 1"
          by blast
        have r': "auction_loop (Suc n) q bid g = Inr ([w], b, g\<lparr>input := s'\<rparr>)"
          using step r by simp
        have w': "w \<in> set q" using w q by simp
        have pay': "b = bid \<and> w = last q \<or> bid < b \<and> b \<le> getMoney w g - 1"
          using pay lastq by simp
        show ?thesis using r' w' pay' by blast
      next
        assume a: "auction_loop n rest bid g = Inl InputExhausted
            \<and> (length (yesno (input g)) < length rest + nat (M - 1 - bid)
               \<or> length (filter inBounds (numbers (input g))) < length rest + nat (M - 1 - bid))"
        have e: "auction_loop (Suc n) q bid g = Inl InputExhausted" using step a by simp
        have "length (yesno (input g)) < length q + nat (M - 1 - bid)
               \<or> length (filter inBounds (numbers (input g))) < length q + nat (M - 1 - bid)"
          using a lq by linarith
        then show ?thesis using e by blast
      qed
    next
      case False
      then have room: "bid < getMoney c g - 1" by simp
      have cM: "getMoney c g \<le> M" using Suc.prems(2) q by simp
      have pos: "0 < nat (M - 1 - bid)" using room cM by simp
      show ?thesis
      proof (cases "yesno (input g)")
        case Nil
        have e: "auction_loop (Suc n) q bid g = Inl InputExhausted"
          unfolding q using rest room Nil by (rule auction_step_no_reply)
        have "length (yesno (input g)) < length q + nat (M - 1 - bid)" using Nil lq by simp
        then show ?thesis using e by blast
      next
        case (Cons a ys)
        have ly: "length (yesno (input g)) = Suc (length ys)" using Cons by simp
        show ?thesis
        proof (cases a)
          case False
          let ?s = "(input g)\<lparr>yesno := ys\<rparr>"
          have ya: "yesno (input g) = False # ys" using Cons False by simp
          have step: "auction_loop (Suc n) q bid g = auction_loop n rest bid (g\<lparr>input := ?s\<rparr>)"
            unfolding q using rest room ya by (rule auction_step_pass)
          have m: "\<forall>p\<in>set rest. getMoney p (g\<lparr>input := ?s\<rparr>) \<le> M"
            using Suc.prems(2) q by simp
          have f: "length rest + nat (M - 1 - bid) \<le> n" using Suc.prems(3) lq by linarith
          note IH = Suc.IH [OF rest m f]
          show ?thesis
          proof (rule disjE [OF IH])
            assume "\<exists>w b s'. auction_loop n rest bid (g\<lparr>input := ?s\<rparr>)
                      = Inr ([w], b, g\<lparr>input := ?s\<rparr>\<lparr>input := s'\<rparr>)
                  \<and> w \<in> set rest
                  \<and> (b = bid \<and> w = last rest
                     \<or> bid < b \<and> b \<le> getMoney w (g\<lparr>input := ?s\<rparr>) - 1)"
            then obtain w b s' where
              r: "auction_loop n rest bid (g\<lparr>input := ?s\<rparr>)
                    = Inr ([w], b, g\<lparr>input := ?s\<rparr>\<lparr>input := s'\<rparr>)"
              and w: "w \<in> set rest"
              and pay: "b = bid \<and> w = last rest
                        \<or> bid < b \<and> b \<le> getMoney w (g\<lparr>input := ?s\<rparr>) - 1"
              by blast
            have r': "auction_loop (Suc n) q bid g = Inr ([w], b, g\<lparr>input := s'\<rparr>)"
              using step r by simp
            have w': "w \<in> set q" using w q by simp
            have pay': "b = bid \<and> w = last q \<or> bid < b \<and> b \<le> getMoney w g - 1"
              using pay lastq by simp
            show ?thesis using r' w' pay' by blast
          next
            assume a: "auction_loop n rest bid (g\<lparr>input := ?s\<rparr>) = Inl InputExhausted
              \<and> (length (yesno (input (g\<lparr>input := ?s\<rparr>))) < length rest + nat (M - 1 - bid)
                 \<or> length (filter inBounds (numbers (input (g\<lparr>input := ?s\<rparr>))))
                     < length rest + nat (M - 1 - bid))"
            have e: "auction_loop (Suc n) q bid g = Inl InputExhausted" using step a by simp
            have short: "length ys < length rest + nat (M - 1 - bid)
                 \<or> length (filter inBounds (numbers (input g))) < length rest + nat (M - 1 - bid)"
              using a by simp
            have "length (yesno (input g)) < length q + nat (M - 1 - bid)
               \<or> length (filter inBounds (numbers (input g))) < length q + nat (M - 1 - bid)"
              using short lq ly by linarith
            then show ?thesis using e by blast
          qed
        next
          case True
          let ?y = "(input g)\<lparr>yesno := ys\<rparr>"
          have ya: "yesno (input g) = True # ys" using Cons True by simp
          note st = auction_step_bid [OF rest room ya, of n]
          have le: "bid + 1 \<le> getMoney c g - 1" using room by simp
          show ?thesis
          proof (rule disjE [OF getNumber_cases [OF le, of ?y]])
            assume a: "getNumber (bid + 1) (getMoney c g - 1) ?y = Inl InputExhausted
                 \<and> filter inBounds (numbers ?y) = []"
            have e: "auction_loop (Suc n) q bid g = Inl InputExhausted"
              unfolding q using st a by simp
            have "length (filter inBounds (numbers (input g))) < length q + nat (M - 1 - bid)"
              using a lq by simp
            then show ?thesis using e by blast
          next
            assume "\<exists>x r. getNumber (bid + 1) (getMoney c g - 1) ?y = Inr (x, ?y\<lparr>numbers := r\<rparr>)
                 \<and> bid + 1 \<le> x \<and> x \<le> getMoney c g - 1
                 \<and> length (filter inBounds (numbers ?y)) \<le> Suc (length (filter inBounds r))"
            then obtain x r where
              gn: "getNumber (bid + 1) (getMoney c g - 1) ?y = Inr (x, ?y\<lparr>numbers := r\<rparr>)"
              and x: "bid + 1 \<le> x" "x \<le> getMoney c g - 1"
              and fr: "length (filter inBounds (numbers ?y)) \<le> Suc (length (filter inBounds r))"
              by blast
            let ?s = "?y\<lparr>numbers := r\<rparr>"
            have step: "auction_loop (Suc n) q bid g
                          = auction_loop n (rest @ [c]) x (g\<lparr>input := ?s\<rparr>)"
              unfolding q using st gn by simp
            have less: "Suc (nat (M - 1 - x)) \<le> nat (M - 1 - bid)" using x cM by linarith
            have l2: "length (rest @ [c]) = length q" using q by simp
            have ne: "rest @ [c] \<noteq> []" by simp
            have m: "\<forall>p\<in>set (rest @ [c]). getMoney p (g\<lparr>input := ?s\<rparr>) \<le> M"
              using Suc.prems(2) q by auto
            have f: "length (rest @ [c]) + nat (M - 1 - x) \<le> n"
              unfolding l2 using Suc.prems(3) less by linarith
            note IH = Suc.IH [OF ne m f]
            show ?thesis
            proof (rule disjE [OF IH])
              assume "\<exists>w b s'. auction_loop n (rest @ [c]) x (g\<lparr>input := ?s\<rparr>)
                        = Inr ([w], b, g\<lparr>input := ?s\<rparr>\<lparr>input := s'\<rparr>)
                  \<and> w \<in> set (rest @ [c])
                  \<and> (b = x \<and> w = last (rest @ [c])
                     \<or> x < b \<and> b \<le> getMoney w (g\<lparr>input := ?s\<rparr>) - 1)"
              then obtain w b s' where
                r: "auction_loop n (rest @ [c]) x (g\<lparr>input := ?s\<rparr>)
                      = Inr ([w], b, g\<lparr>input := ?s\<rparr>\<lparr>input := s'\<rparr>)"
                and w: "w \<in> set (rest @ [c])"
                and pay: "b = x \<and> w = last (rest @ [c])
                          \<or> x < b \<and> b \<le> getMoney w (g\<lparr>input := ?s\<rparr>) - 1"
                by blast
              have r': "auction_loop (Suc n) q bid g = Inr ([w], b, g\<lparr>input := s'\<rparr>)"
                using step r by simp
              have w': "w \<in> set q" using w q by auto
              have pay': "bid < b \<and> b \<le> getMoney w g - 1"
              proof (rule disjE [OF pay])
                assume "b = x \<and> w = last (rest @ [c])"
                then show ?thesis using x by simp
              next
                assume "x < b \<and> b \<le> getMoney w (g\<lparr>input := ?s\<rparr>) - 1"
                then show ?thesis using x by simp
              qed
              show ?thesis using r' w' pay' by blast
            next
              assume a: "auction_loop n (rest @ [c]) x (g\<lparr>input := ?s\<rparr>) = Inl InputExhausted
                \<and> (length (yesno (input (g\<lparr>input := ?s\<rparr>)))
                     < length (rest @ [c]) + nat (M - 1 - x)
                   \<or> length (filter inBounds (numbers (input (g\<lparr>input := ?s\<rparr>))))
                       < length (rest @ [c]) + nat (M - 1 - x))"
              have e: "auction_loop (Suc n) q bid g = Inl InputExhausted" using step a by simp
              have short: "length ys < length q + nat (M - 1 - x)
                   \<or> length (filter inBounds r) < length q + nat (M - 1 - x)"
                using a unfolding l2 by simp
              have fr': "length (filter inBounds (numbers (input g)))
                           \<le> Suc (length (filter inBounds r))"
                using fr by simp
              have "length (yesno (input g)) < length q + nat (M - 1 - bid)
                 \<or> length (filter inBounds (numbers (input g))) < length q + nat (M - 1 - bid)"
                using short less ly fr' by linarith
              then show ?thesis using e by blast
            qed
          qed
        qed
      qed
    qed
  qed
qed


text \<open>When every reply is a refusal the high bid does not move.\<close>

lemma auction_loop_no_bids:
  assumes "q \<noteq> []" and "set (yesno (input g)) \<subseteq> {False}"
    and "auction_loop n q bid g = Inr (q', b, g')"
  shows "q' = [last q] \<and> b = bid"
  using assms
proof (induction n arbitrary: q g)
  case 0
  then show ?case by (cases q) (auto split: if_splits)
next
  case (Suc n)
  show ?case
  proof (cases "length q > 1")
    case False
    with Suc.prems show ?thesis by (cases q) auto
  next
    case True
    then obtain c rest where q: "q = c # rest" and rest: "rest \<noteq> []"
      by (cases q) auto
    have lastq: "last q = last rest" using q rest by simp
    show ?thesis
    proof (cases "getMoney c g - 1 \<le> bid")
      case True
      then have "auction_loop n rest bid g = Inr (q', b, g')"
        using Suc.prems(3) q rest by (simp add: Let_def)
      then show ?thesis using Suc.IH [OF rest Suc.prems(2)] lastq by simp
    next
      case False
      show ?thesis
      proof (cases "yesno (input g)")
        case Nil
        then show ?thesis using Suc.prems(3) q rest False by (simp add: Let_def getYesNo_def)
      next
        case (Cons a ys)
        then have a: "a = False" and sub: "set ys \<subseteq> {False}" using Suc.prems(2) by auto
        have call: "auction_loop n rest bid (g\<lparr>input := (input g)\<lparr>yesno := ys\<rparr>\<rparr>) = Inr (q', b, g')"
          using Suc.prems(3) q rest False Cons a by (simp add: Let_def getYesNo_def)
        have sub': "set (yesno (input (g\<lparr>input := (input g)\<lparr>yesno := ys\<rparr>\<rparr>))) \<subseteq> {False}"
          using sub by simp
        show ?thesis using Suc.IH [OF rest sub' call] lastq by simp
      qed
    qed
  qed
qed

text \<open>What the winner's payment and the change of owner leave as it is.\<close>

lemma countOwned_fields [simp]:
  "board (countOwned sp p g) = board g"
  "getMoney q (countOwned sp p g) = getMoney q g"
  by (cases sp; simp add: setNbStationsOwned_def setNbUtilitiesOwned_def getMoney_def)+

lemma affectOwnership_money [simp]: "getMoney q (affectOwnership p i g) = getMoney q g"
  by (simp add: affectOwnership_def getMoney_def)

lemma affectOwnership_owner:
  "i < length (board g) \<Longrightarrow> isBuyable (board g ! i)
     \<Longrightarrow> getOwner (board (affectOwnership p i g) ! i) = Some p"
  by (cases "board g ! i") (simp_all add: affectOwnership_def)

lemma getMoney_debit_other:
  "p \<noteq> w \<Longrightarrow> getMoney p (transferMoneyFromTo (Some w) None b g) = getMoney p g"
  by (simp add: transferMoneyFromTo_def getMoney_def setMoney_def Let_def)

text \<open>The auction of the space at index \<open>i\<close>, over players none of whom is in debt.\<close>

lemma auction_result:
  assumes ps: "players g \<noteq> []"
    and money: "\<forall>p\<in>set (players g). 0 \<le> getMoney p g \<and> getMoney p g \<le> M"
    and M: "M < 2 ^ 31"
    and fuel: "length (players g) + nat (M - 1) \<le> fuel"
    and sp: "i < length (board g)" "isBuyable (board g ! i)"
  shows "(auction fuel i g = Inl InputExhausted
          \<or> (\<exists>w b s' g'. auction_loop fuel (players g) 0 g = Inr ([w], b, g\<lparr>input := s'\<rparr>)
                \<and> w \<in> set (players g)
                \<and> (b = 0 \<and> w = last (players g) \<or> 0 < b \<and> b \<le> getMoney w g - 1)
                \<and> auction fuel i g = Inr g'
                \<and> getOwner (board g' ! i) = Some w
                \<and> getMoney w g' = getMoney w g - b
                \<and> (\<forall>p. p \<noteq> w \<longrightarrow> getMoney p g' = getMoney p g)
                \<and> nbStationsOwned (heap g' w) = nbStationsOwned (heap g w)
                      + (case board g ! i of Station _ _ \<Rightarrow> 1 | _ \<Rightarrow> 0)
                \<and> nbUtilitiesOwned (heap g' w) = nbUtilitiesOwned (heap g w)
                      + (case board g ! i of Utility _ _ \<Rightarrow> 1 | _ \<Rightarrow> 0)
                \<and> (set (yesno (input g)) \<subseteq> {False} \<longrightarrow> b = 0)))
       \<and> (length (players g) + nat (M - 1) \<le> length (yesno (input g))
            \<and> length (players g) + nat (M - 1) \<le> length (filter inBounds (numbers (input g)))
          \<longrightarrow> auction fuel i g \<noteq> Inl InputExhausted)"
proof -
  have m: "\<forall>p\<in>set (players g). getMoney p g \<le> M" using money by blast
  have f: "length (players g) + nat (M - 1 - 0) \<le> fuel" using fuel by simp
  note res = auction_loop_result [OF ps m f]
  show ?thesis
  proof (rule disjE [OF res])
    assume "\<exists>w b s'. auction_loop fuel (players g) 0 g = Inr ([w], b, g\<lparr>input := s'\<rparr>)
              \<and> w \<in> set (players g)
              \<and> (b = 0 \<and> w = last (players g) \<or> 0 < b \<and> b \<le> getMoney w g - 1)"
    then obtain w b s' where
      loop: "auction_loop fuel (players g) 0 g = Inr ([w], b, g\<lparr>input := s'\<rparr>)"
      and w: "w \<in> set (players g)"
      and pay: "b = 0 \<and> w = last (players g) \<or> 0 < b \<and> b \<le> getMoney w g - 1"
      by blast
    have mw: "0 \<le> getMoney w g" "getMoney w g \<le> M" using money w by blast+
    have b: "0 \<le> b" "b \<le> getMoney w g" using pay mw by auto
    have fits: "getMoney w g - b < 2 ^ 31" using b mw M by linarith
    let ?g' = "countOwned (board g ! i) w (affectOwnership w i
                 (transferMoneyFromTo (Some w) None b (g\<lparr>input := s'\<rparr>)))"
    have a: "auction fuel i g = Inr ?g'" by (simp add: auction_def loop)
    have own: "getOwner (board ?g' ! i) = Some w" using sp by (simp add: affectOwnership_owner)
    have paid: "getMoney w ?g' = getMoney w g - b" using b fits by (simp add: getMoney_debit)
    have others: "\<forall>p. p \<noteq> w \<longrightarrow> getMoney p ?g' = getMoney p g"
      by (simp add: getMoney_debit_other)
    have counts:
      "nbStationsOwned (heap ?g' w) = nbStationsOwned (heap g w)
         + (case board g ! i of Station _ _ \<Rightarrow> 1 | _ \<Rightarrow> 0)"
      "nbUtilitiesOwned (heap ?g' w) = nbUtilitiesOwned (heap g w)
         + (case board g ! i of Utility _ _ \<Rightarrow> 1 | _ \<Rightarrow> 0)"
      by (cases "board g ! i";
          simp add: setNbStationsOwned_def setNbUtilitiesOwned_def affectOwnership_def)+
    have nobid: "set (yesno (input g)) \<subseteq> {False} \<longrightarrow> b = 0"
      using auction_loop_no_bids [OF ps _ loop] by auto
    have ne: "auction fuel i g \<noteq> Inl InputExhausted" using a by simp
    have "\<exists>w b s' g'. auction_loop fuel (players g) 0 g = Inr ([w], b, g\<lparr>input := s'\<rparr>)
                \<and> w \<in> set (players g)
                \<and> (b = 0 \<and> w = last (players g) \<or> 0 < b \<and> b \<le> getMoney w g - 1)
                \<and> auction fuel i g = Inr g'
                \<and> getOwner (board g' ! i) = Some w
                \<and> getMoney w g' = getMoney w g - b
                \<and> (\<forall>p. p \<noteq> w \<longrightarrow> getMoney p g' = getMoney p g)
                \<and> nbStationsOwned (heap g' w) = nbStationsOwned (heap g w)
                      + (case board g ! i of Station _ _ \<Rightarrow> 1 | _ \<Rightarrow> 0)
                \<and> nbUtilitiesOwned (heap g' w) = nbUtilitiesOwned (heap g w)
                      + (case board g ! i of Utility _ _ \<Rightarrow> 1 | _ \<Rightarrow> 0)
                \<and> (set (yesno (input g)) \<subseteq> {False} \<longrightarrow> b = 0)"
      using loop w pay a own paid others counts nobid by blast
    then show ?thesis using ne by blast
  next
    assume a: "auction_loop fuel (players g) 0 g = Inl InputExhausted
            \<and> (length (yesno (input g)) < length (players g) + nat (M - 1 - 0)
               \<or> length (filter inBounds (numbers (input g)))
                    < length (players g) + nat (M - 1 - 0))"
    have e: "auction fuel i g = Inl InputExhausted" using a by (simp add: auction_def)
    have short: "\<not> (length (players g) + nat (M - 1) \<le> length (yesno (input g))
            \<and> length (players g) + nat (M - 1) \<le> length (filter inBounds (numbers (input g))))"
      using a by auto
    show ?thesis using e short by blast
  qed
qed

text \<open>The three candidates with 40, 100 and 60, of whom only the second bids, 55. The
  first refuses and is out; the second bids 55 and goes to the back; the third refuses and
  is out; the second is alone, pays 55 and owns the station.\<close>

lemma auction_example_facts:
  "players auctionGame = [0, 1, 2]"
  "getMoney 0 auctionGame = 40" "getMoney (Suc 0) auctionGame = 100" "getMoney 2 auctionGame = 60"
  "input auctionGame = noInput\<lparr>yesno := [False, True, False], numbers := [\<lambda>lo hi. 55]\<rparr>"
  by (simp_all add: auctionGame_def concrete_game_defs setMoney_def getMoney_def)

lemma auction_example_trace:
  "auction_loop 3 [0, 1, 2] 0 auctionGame
     = auction_loop 2 [1, 2] 0
         (auctionGame\<lparr>input := noInput\<lparr>yesno := [True, False], numbers := [\<lambda>lo hi. 55]\<rparr>\<rparr>)"
  "auction_loop 2 [1, 2] 0
         (auctionGame\<lparr>input := noInput\<lparr>yesno := [True, False], numbers := [\<lambda>lo hi. 55]\<rparr>\<rparr>)
     = auction_loop 1 [2, 1] 55 (auctionGame\<lparr>input := noInput\<lparr>yesno := [False]\<rparr>\<rparr>)"
  "auction_loop 1 [2, 1] 55 (auctionGame\<lparr>input := noInput\<lparr>yesno := [False]\<rparr>\<rparr>)
     = auction_loop 0 [1] 55 (auctionGame\<lparr>input := noInput\<rparr>)"
  "auction_loop 0 [1] 55 (auctionGame\<lparr>input := noInput\<rparr>)
     = Inr ([1], 55, auctionGame\<lparr>input := noInput\<rparr>)"
proof -
  let ?h1 = "auctionGame\<lparr>input := noInput\<lparr>yesno := [True, False], numbers := [\<lambda>lo hi. 55]\<rparr>\<rparr>"
  let ?h2 = "auctionGame\<lparr>input := noInput\<lparr>yesno := [False]\<rparr>\<rparr>"
  have "auction_loop (Suc 2) (0 # [1, 2]) 0 auctionGame
          = auction_loop 2 [1, 2] 0 (auctionGame\<lparr>input := (input auctionGame)\<lparr>yesno := [True, False]\<rparr>\<rparr>)"
    by (rule auction_step_pass) (simp_all add: auction_example_facts)
  then show "auction_loop 3 [0, 1, 2] 0 auctionGame = auction_loop 2 [1, 2] 0 ?h1"
    by (simp add: auction_example_facts eval_nat_numeral noInput_def del: auction_loop.simps)
  have gn: "getNumber (0 + 1) (getMoney 1 ?h1 - 1) ((input ?h1)\<lparr>yesno := [False]\<rparr>)
              = Inr (55, noInput\<lparr>yesno := [False]\<rparr>)"
    by (simp add: auction_example_facts getNumber_def noInput_def)
  have "case getNumber (0 + 1) (getMoney 1 ?h1 - 1) ((input ?h1)\<lparr>yesno := [False]\<rparr>) of
          Inl e \<Rightarrow> auction_loop (Suc 1) (1 # [2]) 0 ?h1 = Inl e
        | Inr (b, s') \<Rightarrow>
            0 < b \<and> b \<le> getMoney 1 ?h1 - 1
            \<and> auction_loop (Suc 1) (1 # [2]) 0 ?h1
                = auction_loop 1 ([2] @ [1]) b (?h1\<lparr>input := s'\<rparr>)"
    by (rule auction_step_bid) (simp_all add: auction_example_facts)
  then have "auction_loop (Suc 1) (1 # [2]) 0 ?h1
               = auction_loop 1 ([2] @ [1]) 55 (?h1\<lparr>input := noInput\<lparr>yesno := [False]\<rparr>\<rparr>)"
    unfolding gn by (simp del: auction_loop.simps)
  then show "auction_loop 2 [1, 2] 0 ?h1 = auction_loop 1 [2, 1] 55 ?h2"
    by (simp add: eval_nat_numeral noInput_def del: auction_loop.simps)
  have "auction_loop (Suc 0) (2 # [1]) 55 ?h2
          = auction_loop 0 [1] 55 (?h2\<lparr>input := (input ?h2)\<lparr>yesno := []\<rparr>\<rparr>)"
    by (rule auction_step_pass) (simp_all add: auction_example_facts)
  then show "auction_loop 1 [2, 1] 55 ?h2 = auction_loop 0 [1] 55 (auctionGame\<lparr>input := noInput\<rparr>)"
    by (simp add: noInput_def del: auction_loop.simps)
  show "auction_loop 0 [1] 55 (auctionGame\<lparr>input := noInput\<rparr>)
          = Inr ([1], 55, auctionGame\<lparr>input := noInput\<rparr>)"
    by (rule auction_loop_one)
qed

lemma auction_example:
  "(case auction 3 1 auctionGame of
        Inr g' \<Rightarrow> getOwner (board g' ! 1) = Some 1 \<and> getMoney 1 g' = 45
                 \<and> getMoney 0 g' = 40 \<and> getMoney 2 g' = 60
      | Inl e \<Rightarrow> False)"
  by code_simp


text \<open>C7. The rules of an iteration, for a queue \<open>c # rest\<close> of more than one candidate and a
  high bid \<open>hb\<close>: the candidates are taken from the front (strict rotation); a candidate
  whose money minus 1 is at most \<open>hb\<close> is eliminated; one who refuses is eliminated; one who
  bids gives an amount above \<open>hb\<close> and at most their money minus 1, which becomes the high
  bid, and goes to the back of the queue; a queue of one candidate ends the loop.

  For every auction of a buyable space over the active players, none of whom is in debt
  and each of whom has at most \<open>M\<close> (an \<open>int\<close>), whatever the replies, with fuel for
  \<open>length (players g) + (M - 1)\<close> iterations: the script of replies runs out (the program
  waits for one), or the loop ends with exactly one candidate \<open>w\<close>, who has made the high
  bid \<open>b\<close> or, when there has been no bid, is the last player in rotation with \<open>b = 0\<close>;
  \<open>w\<close> pays \<open>b\<close> to the bank and becomes the owner of the space, and nobody else's money
  changes; the winner of a station or of a utility counts one more of them. When every
  reply is a refusal there is no bid. A script that holds as many yes/no replies as the
  bound on the iterations, and as many amounts that stay within the bounds of whatever
  prompt they answer (other amounts may come between them, and are asked again), does
  not run out: the auction returns.

  With candidates holding 40, 100 and 60, of whom only the second bids, 55: the first
  refuses and is eliminated, the second bids 55, the third refuses and is eliminated, and
  the second wins at 55.\<close>

theorem auction_single_winner:
  "auction_loop k [c] hb h = Inr ([c], hb, h)
   \<and> (rest \<noteq> [] \<and> getMoney c h - 1 \<le> hb \<longrightarrow>
        auction_loop (Suc k) (c # rest) hb h = auction_loop k rest hb h)
   \<and> (rest \<noteq> [] \<and> hb < getMoney c h - 1 \<and> yesno (input h) = False # ys \<longrightarrow>
        auction_loop (Suc k) (c # rest) hb h
          = auction_loop k rest hb (h\<lparr>input := (input h)\<lparr>yesno := ys\<rparr>\<rparr>))
   \<and> (rest \<noteq> [] \<and> hb < getMoney c h - 1 \<and> yesno (input h) = True # ys \<longrightarrow>
        (case getNumber (hb + 1) (getMoney c h - 1) ((input h)\<lparr>yesno := ys\<rparr>) of
           Inl e \<Rightarrow> auction_loop (Suc k) (c # rest) hb h = Inl e
         | Inr (x, s') \<Rightarrow>
             hb < x \<and> x \<le> getMoney c h - 1
             \<and> auction_loop (Suc k) (c # rest) hb h
                 = auction_loop k (rest @ [c]) x (h\<lparr>input := s'\<rparr>)))
   \<and> (players g \<noteq> [] \<and> (\<forall>p\<in>set (players g). 0 \<le> getMoney p g \<and> getMoney p g \<le> M)
        \<and> M < 2 ^ 31 \<and> length (players g) + nat (M - 1) \<le> fuel
        \<and> i < length (board g) \<and> isBuyable (board g ! i) \<longrightarrow>
        (auction fuel i g = Inl InputExhausted
          \<or> (\<exists>w b s' g'. auction_loop fuel (players g) 0 g = Inr ([w], b, g\<lparr>input := s'\<rparr>)
                \<and> w \<in> set (players g)
                \<and> (b = 0 \<and> w = last (players g) \<or> 0 < b \<and> b \<le> getMoney w g - 1)
                \<and> auction fuel i g = Inr g'
                \<and> getOwner (board g' ! i) = Some w
                \<and> getMoney w g' = getMoney w g - b
                \<and> (\<forall>p. p \<noteq> w \<longrightarrow> getMoney p g' = getMoney p g)
                \<and> nbStationsOwned (heap g' w) = nbStationsOwned (heap g w)
                      + (case board g ! i of Station _ _ \<Rightarrow> 1 | _ \<Rightarrow> 0)
                \<and> nbUtilitiesOwned (heap g' w) = nbUtilitiesOwned (heap g w)
                      + (case board g ! i of Utility _ _ \<Rightarrow> 1 | _ \<Rightarrow> 0)
                \<and> (set (yesno (input g)) \<subseteq> {False} \<longrightarrow> b = 0)))
        \<and> (length (players g) + nat (M - 1) \<le> length (yesno (input g))
             \<and> length (players g) + nat (M - 1)
                  \<le> length (filter inBounds (numbers (input g)))
           \<longrightarrow> auction fuel i g \<noteq> Inl InputExhausted))
   \<and> players auctionGame = [0, 1, 2]
   \<and> map (\<lambda>p. getMoney p auctionGame) (players auctionGame) = [40, 100, 60]
   \<and> auction_loop 3 [0, 1, 2] 0 auctionGame
        = auction_loop 2 [1, 2] 0
            (auctionGame\<lparr>input := noInput\<lparr>yesno := [True, False], numbers := [\<lambda>lo hi. 55]\<rparr>\<rparr>)
   \<and> auction_loop 2 [1, 2] 0
            (auctionGame\<lparr>input := noInput\<lparr>yesno := [True, False], numbers := [\<lambda>lo hi. 55]\<rparr>\<rparr>)
        = auction_loop 1 [2, 1] 55 (auctionGame\<lparr>input := noInput\<lparr>yesno := [False]\<rparr>\<rparr>)
   \<and> auction_loop 1 [2, 1] 55 (auctionGame\<lparr>input := noInput\<lparr>yesno := [False]\<rparr>\<rparr>)
        = auction_loop 0 [1] 55 (auctionGame\<lparr>input := noInput\<rparr>)
   \<and> auction_loop 0 [1] 55 (auctionGame\<lparr>input := noInput\<rparr>)
        = Inr ([1], 55, auctionGame\<lparr>input := noInput\<rparr>)
   \<and> (case auction 3 1 auctionGame of
         Inr g' \<Rightarrow> getOwner (board g' ! 1) = Some 1 \<and> getMoney 1 g' = 45
                  \<and> getMoney 0 g' = 40 \<and> getMoney 2 g' = 60
       | Inl e \<Rightarrow> False)"
proof -
  have one: "auction_loop k [c] hb h = Inr ([c], hb, h)" by (rule auction_loop_one)
  have cannot: "rest \<noteq> [] \<and> getMoney c h - 1 \<le> hb \<longrightarrow>
        auction_loop (Suc k) (c # rest) hb h = auction_loop k rest hb h"
    using auction_step_cannot_bid [of rest c h hb k] by blast
  have pass: "rest \<noteq> [] \<and> hb < getMoney c h - 1 \<and> yesno (input h) = False # ys \<longrightarrow>
        auction_loop (Suc k) (c # rest) hb h
          = auction_loop k rest hb (h\<lparr>input := (input h)\<lparr>yesno := ys\<rparr>\<rparr>)"
    using auction_step_pass [of rest hb c h ys k] by blast
  have bids: "rest \<noteq> [] \<and> hb < getMoney c h - 1 \<and> yesno (input h) = True # ys \<longrightarrow>
        (case getNumber (hb + 1) (getMoney c h - 1) ((input h)\<lparr>yesno := ys\<rparr>) of
           Inl e \<Rightarrow> auction_loop (Suc k) (c # rest) hb h = Inl e
         | Inr (x, s') \<Rightarrow>
             hb < x \<and> x \<le> getMoney c h - 1
             \<and> auction_loop (Suc k) (c # rest) hb h
                 = auction_loop k (rest @ [c]) x (h\<lparr>input := s'\<rparr>))"
    using auction_step_bid [of rest hb c h ys k] by blast
  have every: "players g \<noteq> [] \<and> (\<forall>p\<in>set (players g). 0 \<le> getMoney p g \<and> getMoney p g \<le> M)
        \<and> M < 2 ^ 31 \<and> length (players g) + nat (M - 1) \<le> fuel
        \<and> i < length (board g) \<and> isBuyable (board g ! i) \<longrightarrow>
        (auction fuel i g = Inl InputExhausted
          \<or> (\<exists>w b s' g'. auction_loop fuel (players g) 0 g = Inr ([w], b, g\<lparr>input := s'\<rparr>)
                \<and> w \<in> set (players g)
                \<and> (b = 0 \<and> w = last (players g) \<or> 0 < b \<and> b \<le> getMoney w g - 1)
                \<and> auction fuel i g = Inr g'
                \<and> getOwner (board g' ! i) = Some w
                \<and> getMoney w g' = getMoney w g - b
                \<and> (\<forall>p. p \<noteq> w \<longrightarrow> getMoney p g' = getMoney p g)
                \<and> nbStationsOwned (heap g' w) = nbStationsOwned (heap g w)
                      + (case board g ! i of Station _ _ \<Rightarrow> 1 | _ \<Rightarrow> 0)
                \<and> nbUtilitiesOwned (heap g' w) = nbUtilitiesOwned (heap g w)
                      + (case board g ! i of Utility _ _ \<Rightarrow> 1 | _ \<Rightarrow> 0)
                \<and> (set (yesno (input g)) \<subseteq> {False} \<longrightarrow> b = 0)))
        \<and> (length (players g) + nat (M - 1) \<le> length (yesno (input g))
             \<and> length (players g) + nat (M - 1)
                  \<le> length (filter inBounds (numbers (input g)))
           \<longrightarrow> auction fuel i g \<noteq> Inl InputExhausted)"
  proof (rule impI)
    assume a: "players g \<noteq> [] \<and> (\<forall>p\<in>set (players g). 0 \<le> getMoney p g \<and> getMoney p g \<le> M)
        \<and> M < 2 ^ 31 \<and> length (players g) + nat (M - 1) \<le> fuel
        \<and> i < length (board g) \<and> isBuyable (board g ! i)"
    then have ps: "players g \<noteq> []"
      and money: "\<forall>p\<in>set (players g). 0 \<le> getMoney p g \<and> getMoney p g \<le> M"
      and M: "M < 2 ^ 31" and fuel: "length (players g) + nat (M - 1) \<le> fuel"
      and sp: "i < length (board g)" "isBuyable (board g ! i)"
      by blast+
    show "(auction fuel i g = Inl InputExhausted
          \<or> (\<exists>w b s' g'. auction_loop fuel (players g) 0 g = Inr ([w], b, g\<lparr>input := s'\<rparr>)
                \<and> w \<in> set (players g)
                \<and> (b = 0 \<and> w = last (players g) \<or> 0 < b \<and> b \<le> getMoney w g - 1)
                \<and> auction fuel i g = Inr g'
                \<and> getOwner (board g' ! i) = Some w
                \<and> getMoney w g' = getMoney w g - b
                \<and> (\<forall>p. p \<noteq> w \<longrightarrow> getMoney p g' = getMoney p g)
                \<and> nbStationsOwned (heap g' w) = nbStationsOwned (heap g w)
                      + (case board g ! i of Station _ _ \<Rightarrow> 1 | _ \<Rightarrow> 0)
                \<and> nbUtilitiesOwned (heap g' w) = nbUtilitiesOwned (heap g w)
                      + (case board g ! i of Utility _ _ \<Rightarrow> 1 | _ \<Rightarrow> 0)
                \<and> (set (yesno (input g)) \<subseteq> {False} \<longrightarrow> b = 0)))
        \<and> (length (players g) + nat (M - 1) \<le> length (yesno (input g))
             \<and> length (players g) + nat (M - 1)
                  \<le> length (filter inBounds (numbers (input g)))
           \<longrightarrow> auction fuel i g \<noteq> Inl InputExhausted)"
      by (rule auction_result [OF ps money M fuel sp])
  qed
  have ex0: "players auctionGame = [0, 1, 2]"
    "map (\<lambda>p. getMoney p auctionGame) (players auctionGame) = [40, 100, 60]"
    by (simp_all add: auction_example_facts)
  show ?thesis
    by (intro conjI) (rule one cannot pass bids every ex0 auction_example_trace auction_example)+
qed

lemma inBounds_clamp55: "inBounds clamp55"
  by (auto simp: inBounds_def clamp55_def)

lemma not_inBounds_200: "\<not> inBounds (\<lambda>lo hi. 200)"
proof
  assume "inBounds (\<lambda>lo hi. 200)"
  from inBoundsD [OF this, of 0 0] show False by simp
qed

lemma long_facts:
  "players longAuction = [0, 1, 2]"
  "getMoney 0 longAuction = 40" "getMoney (Suc 0) longAuction = 100" "getMoney 2 longAuction = 60"
  "length (yesno (input longAuction)) = 103"
  "length (filter inBounds (numbers (input longAuction))) = 102"
  "length (board longAuction) = 2" "isBuyable (board longAuction ! Suc 0)"
  by (simp_all add: longAuction_def auctionGame_def concrete_game_defs setMoney_def getMoney_def
        inBounds_clamp55 not_inBounds_200)

lemma quiet_facts:
  "players quietAuction = [0, 1, 2]"
  "getMoney 0 quietAuction = 40" "getMoney (Suc 0) quietAuction = 100"
  "getMoney 2 quietAuction = 60"
  "yesno (input quietAuction) = replicate 102 False"
  "length (filter inBounds (numbers (input quietAuction))) = 102"
  "length (board quietAuction) = 2" "isBuyable (board quietAuction ! Suc 0)"
  by (simp_all add: quietAuction_def auctionGame_def concrete_game_defs setMoney_def getMoney_def
        inBounds_clamp55)

theorem auction_single_winner_witness:
  "(\<exists>w b s' g'. auction_loop 102 (players longAuction) 0 longAuction
                  = Inr ([w], b, longAuction\<lparr>input := s'\<rparr>)
       \<and> w \<in> set (players longAuction)
       \<and> (b = 0 \<and> w = 2 \<or> 0 < b \<and> b \<le> getMoney w longAuction - 1)
       \<and> auction 102 1 longAuction = Inr g' \<and> getOwner (board g' ! 1) = Some w
       \<and> getMoney w g' = getMoney w longAuction - b)
   \<and> (\<exists>s' g'. auction_loop 102 (players quietAuction) 0 quietAuction
                  = Inr ([2], 0, quietAuction\<lparr>input := s'\<rparr>)
       \<and> auction 102 1 quietAuction = Inr g' \<and> getOwner (board g' ! 1) = Some 2
       \<and> getMoney 2 g' = 60 \<and> getMoney 0 g' = 40 \<and> getMoney 1 g' = 100)
   \<and> auction_loop 3 [0, 1, 2] 39 auctionGame = auction_loop 2 [1, 2] 39 auctionGame
   \<and> auction_loop 3 [0, 1, 2] 0 auctionGame
        = auction_loop 2 [1, 2] 0
            (auctionGame\<lparr>input := (input auctionGame)\<lparr>yesno := [True, False]\<rparr>\<rparr>)"
proof -
  note L = auction_single_winner [where g = longAuction and M = 100 and fuel = 102 and i = 1
      and h = auctionGame and c = 0 and rest = "[1, 2]" and hb = 39 and k = 2]
  note Q = auction_single_winner [where g = quietAuction and M = 100 and fuel = 102 and i = 1
      and h = auctionGame and c = 0 and rest = "[1, 2]" and hb = 0 and k = 2
      and ys = "[True, False]"]
  note Lcannot = L [THEN conjunct2, THEN conjunct1]
  note Qpass = Q [THEN conjunct2, THEN conjunct2, THEN conjunct1]
  note Levery = L [THEN conjunct2, THEN conjunct2, THEN conjunct2, THEN conjunct2, THEN conjunct1]
  note Qevery = Q [THEN conjunct2, THEN conjunct2, THEN conjunct2, THEN conjunct2, THEN conjunct1]
  have hyp: "players longAuction \<noteq> []
        \<and> (\<forall>p\<in>set (players longAuction). 0 \<le> getMoney p longAuction \<and> getMoney p longAuction \<le> 100)
        \<and> (100::int) < 2 ^ 31 \<and> length (players longAuction) + nat (100 - 1) \<le> 102
        \<and> 1 < length (board longAuction) \<and> isBuyable (board longAuction ! 1)"
    by (simp add: long_facts)
  have enough: "length (players longAuction) + nat (100 - 1) \<le> length (yesno (input longAuction))
        \<and> length (players longAuction) + nat (100 - 1)
             \<le> length (filter inBounds (numbers (input longAuction)))"
    by (simp add: long_facts)
  have lastl: "last (players longAuction) = 2" by (simp add: long_facts)
  note Lres = mp [OF Levery hyp]
  have lne: "auction 102 1 longAuction \<noteq> Inl InputExhausted"
    by (rule mp [OF Lres [THEN conjunct2] enough])
  have long: "\<exists>w b s' g'. auction_loop 102 (players longAuction) 0 longAuction
                  = Inr ([w], b, longAuction\<lparr>input := s'\<rparr>)
       \<and> w \<in> set (players longAuction)
       \<and> (b = 0 \<and> w = 2 \<or> 0 < b \<and> b \<le> getMoney w longAuction - 1)
       \<and> auction 102 1 longAuction = Inr g' \<and> getOwner (board g' ! 1) = Some w
       \<and> getMoney w g' = getMoney w longAuction - b"
    using Lres [THEN conjunct1] lne unfolding lastl by blast
  have qhyp: "players quietAuction \<noteq> []
        \<and> (\<forall>p\<in>set (players quietAuction). 0 \<le> getMoney p quietAuction \<and> getMoney p quietAuction \<le> 100)
        \<and> (100::int) < 2 ^ 31 \<and> length (players quietAuction) + nat (100 - 1) \<le> 102
        \<and> 1 < length (board quietAuction) \<and> isBuyable (board quietAuction ! 1)"
    by (simp add: quiet_facts)
  have qenough: "length (players quietAuction) + nat (100 - 1) \<le> length (yesno (input quietAuction))
        \<and> length (players quietAuction) + nat (100 - 1)
             \<le> length (filter inBounds (numbers (input quietAuction)))"
    by (simp add: quiet_facts)
  have refusals: "set (yesno (input quietAuction)) \<subseteq> {False}" by (simp add: quiet_facts)
  have lastq: "last (players quietAuction) = 2" "getMoney 2 quietAuction = 60"
    "getMoney 0 quietAuction = 40" "getMoney 1 quietAuction = 100"
    by (simp_all add: quiet_facts)
  note Qres = mp [OF Qevery qhyp]
  have qne: "auction 102 1 quietAuction \<noteq> Inl InputExhausted"
    by (rule mp [OF Qres [THEN conjunct2] qenough])
  have "\<exists>w b s' g'. auction_loop 102 (players quietAuction) 0 quietAuction
                = Inr ([w], b, quietAuction\<lparr>input := s'\<rparr>)
          \<and> (b = 0 \<and> w = last (players quietAuction) \<or> 0 < b \<and> b \<le> getMoney w quietAuction - 1)
          \<and> auction 102 1 quietAuction = Inr g'
          \<and> getOwner (board g' ! 1) = Some w
          \<and> getMoney w g' = getMoney w quietAuction - b
          \<and> (\<forall>p. p \<noteq> w \<longrightarrow> getMoney p g' = getMoney p quietAuction)
          \<and> b = 0"
    using Qres [THEN conjunct1] qne refusals by blast
  then obtain w b s' g' where
    loop: "auction_loop 102 (players quietAuction) 0 quietAuction
             = Inr ([w], b, quietAuction\<lparr>input := s'\<rparr>)"
    and wb: "b = 0 \<and> w = last (players quietAuction) \<or> 0 < b \<and> b \<le> getMoney w quietAuction - 1"
    and a: "auction 102 1 quietAuction = Inr g'" "getOwner (board g' ! 1) = Some w"
      "getMoney w g' = getMoney w quietAuction - b"
    and others: "\<forall>p. p \<noteq> w \<longrightarrow> getMoney p g' = getMoney p quietAuction"
    and b0: "b = 0"
    by blast
  have w2: "w = 2" using wb b0 lastq by simp
  have o: "getMoney 0 g' = 40" "getMoney 1 g' = 100" using others w2 lastq by simp_all
  have quiet: "\<exists>s' g'. auction_loop 102 (players quietAuction) 0 quietAuction
                  = Inr ([2], 0, quietAuction\<lparr>input := s'\<rparr>)
       \<and> auction 102 1 quietAuction = Inr g' \<and> getOwner (board g' ! 1) = Some 2
       \<and> getMoney 2 g' = 60 \<and> getMoney 0 g' = 40 \<and> getMoney 1 g' = 100"
    using loop a o lastq unfolding w2 b0 by auto
  have m0: "getMoney 0 auctionGame = 40" "yesno (input auctionGame) = False # [True, False]"
    by (simp_all add: auction_example_facts)
  have s1: "auction_loop 3 [0, 1, 2] 39 auctionGame = auction_loop 2 [1, 2] 39 auctionGame"
    using Lcannot m0 by (simp add: numeral_3_eq_3 del: auction_loop.simps)
  have s2: "auction_loop 3 [0, 1, 2] 0 auctionGame
        = auction_loop 2 [1, 2] 0
            (auctionGame\<lparr>input := (input auctionGame)\<lparr>yesno := [True, False]\<rparr>\<rparr>)"
    using Qpass m0 by (simp add: numeral_3_eq_3 del: auction_loop.simps)
  show ?thesis using long quiet s1 s2 by blast
qed

end
